theory Spec2Isabelle
  imports Complex_Main "HOL-Library.Word"
begin

section \<open>Strings as the handlers use them\<close>

text \<open>
  JavaScript strings are modelled as \<open>string\<close> (lists of 8-bit characters), which is exact
  for the ASCII text the handlers build and compare. \<open>toLowerCase\<close> and \<open>toUpperCase\<close>
  change the 26 ASCII letters and nothing else.
\<close>

definition lowerChar :: "char \<Rightarrow> char" where
  "lowerChar c =
     (case map_of (zip ''ABCDEFGHIJKLMNOPQRSTUVWXYZ'' ''abcdefghijklmnopqrstuvwxyz'') c of
        Some l \<Rightarrow> l
      | None \<Rightarrow> c)"

definition upperChar :: "char \<Rightarrow> char" where
  "upperChar c =
     (case map_of (zip ''abcdefghijklmnopqrstuvwxyz'' ''ABCDEFGHIJKLMNOPQRSTUVWXYZ'') c of
        Some u \<Rightarrow> u
      | None \<Rightarrow> c)"

definition toLowerCase :: "string \<Rightarrow> string" where
  "toLowerCase s = map lowerChar s"

definition toUpperCase :: "string \<Rightarrow> string" where
  "toUpperCase s = map upperChar s"

definition startsWith :: "string \<Rightarrow> string \<Rightarrow> bool" where
  "startsWith s p = (take (length p) s = p)"

text \<open>White space removed by \<open>String.prototype.trim\<close>, within ASCII: tab, line feed,
  vertical tab, form feed, carriage return and space.\<close>

definition isTrimSpace :: "char \<Rightarrow> bool" where
  "isTrimSpace c = (of_char c \<in> {9, 10, 11, 12, 13, 32 :: nat})"

definition trim :: "string \<Rightarrow> string" where
  "trim s = rev (dropWhile isTrimSpace (rev (dropWhile isTrimSpace s)))"

text \<open>A value is truthy in a condition when it is neither absent (\<open>null\<close>, \<open>undefined\<close>) nor
  the empty string.\<close>

definition truthy :: "string option \<Rightarrow> bool" where
  "truthy v = (case v of None \<Rightarrow> False | Some s \<Rightarrow> s \<noteq> [])"

text \<open>\<open>v || d\<close> on an optional string.\<close>

definition orElse :: "string option \<Rightarrow> string \<Rightarrow> string" where
  "orElse v d = (case v of None \<Rightarrow> d | Some s \<Rightarrow> if s = [] then d else s)"

text \<open>
  A value as \<open>request.json()\<close> hands it to a handler: a property the body does not have
  (\<open>undefined\<close>), \<open>null\<close>, a boolean, a number, a string, or anything else (an array, an
  object, and \<open>Infinity\<close>, which a numeral too large for a double parses to). A value is
  truthy unless it is \<open>undefined\<close>, \<open>null\<close>, \<open>false\<close>, zero or the empty string.
\<close>

datatype js_value =
  JUndefined
| JNull
| JBool bool
| JNumber rat
| JString string
| JOther

definition jsTruthy :: "js_value \<Rightarrow> bool" where
  "jsTruthy v =
     (case v of
        JUndefined \<Rightarrow> False
      | JNull \<Rightarrow> False
      | JBool b \<Rightarrow> b
      | JNumber n \<Rightarrow> n \<noteq> 0
      | JString s \<Rightarrow> s \<noteq> []
      | JOther \<Rightarrow> True)"

section \<open>The license store\<close>

text \<open>
  A row of the \<open>saasClients\<close> table, with the columns the handlers read or write. Dates are
  milliseconds since the epoch; a nullable column is an \<open>option\<close>. The status columns are
  strings, as the handlers compare and print them.
\<close>

record tenant_base =
  client_id :: string
  companyName :: string

record saas_client = tenant_base +
  websiteDomain :: string
  licenseKey :: string
  status :: string
  subscriptionType :: string
  subscriptionStatus :: string
  subscriptionEndDate :: "int option"
  lastAccessDate :: "int option"
  lastVerificationDate :: "int option"
  licenseVerified :: string
  client_notes :: "string option"
  updatedAt :: int

text \<open>A row of the \<open>licenseVerificationLogs\<close> table; the license key is the value as
  submitted.\<close>

record verification_log =
  log_id :: string
  log_clientId :: string
  log_licenseKey :: js_value
  log_requestDomain :: string
  log_requestIp :: string
  log_userAgent :: string
  log_verificationStatus :: string
  log_errorMessage :: "string option"
  log_responseTime :: int

text \<open>The store: its two tables, and how it compares the \<open>licenseKey\<close> column with a query
  parameter that is not a string (\<open>coercedEq\<close>: the coercion of the driver and of the
  database, which are not code of this repository).\<close>

record database =
  saasClients :: "saas_client list"
  licenseVerificationLogs :: "verification_log list"
  coercedEq :: "js_value \<Rightarrow> string \<Rightarrow> bool"

text \<open>\<open>eq(saasClients.licenseKey, v)\<close>: equality of strings when \<open>v\<close> is a string.\<close>

definition keyEquals :: "database \<Rightarrow> js_value \<Rightarrow> string \<Rightarrow> bool" where
  "keyEquals db v column =
     (case v of JString s \<Rightarrow> column = s | _ \<Rightarrow> coercedEq db v column)"

text \<open>\<open>select().from(t).where(p).limit(1)\<close>: the first row that satisfies \<open>p\<close>, if any.
  \<open>eq(column, v)\<close> is equality of strings.\<close>

definition selectFirst :: "('r \<Rightarrow> bool) \<Rightarrow> 'r list \<Rightarrow> 'r option" where
  "selectFirst p rows = find p rows"

text \<open>\<open>update(t).set(f).where(p)\<close>: every row that satisfies \<open>p\<close> is changed by \<open>f\<close>.\<close>

definition updateWhere :: "('r \<Rightarrow> bool) \<Rightarrow> ('r \<Rightarrow> 'r) \<Rightarrow> 'r list \<Rightarrow> 'r list" where
  "updateWhere p f rows = map (\<lambda>r. if p r then f r else r) rows"

text \<open>What a handler meets in its surroundings: the clock at the start of the request
  (\<open>Date.now()\<close> on entry), the clock afterwards (every later \<open>new Date()\<close> and
  \<open>Date.now()\<close> of the same request), its ISO rendering, the fresh \<open>uuidv4()\<close>, and
  which of the calls it awaits rejects, if any: \<open>rejectedCall = Some k\<close> when the call
  number \<open>k\<close> of the request (\<open>request.json()\<close> and the queries of the store, counted
  from 0 in the order of the source) throws, \<open>None\<close> when every call is answered.\<close>

record env =
  startTime :: int
  now :: int
  isoNow :: string
  freshId :: string
  rejectedCall :: "nat option"

definition rejects :: "env \<Rightarrow> nat \<Rightarrow> bool" where
  "rejects e k = (rejectedCall e = Some k)"

text \<open>An awaited call inside \<open>try\<close>: when it rejects, the handler answers with \<open>failed\<close>, the
  response of its \<open>catch\<close> branch, and the store stays as it is at that point; otherwise
  the handler goes on.\<close>

definition attempt :: "env \<Rightarrow> nat \<Rightarrow> 'a \<Rightarrow> database \<Rightarrow> 'a \<times> database \<Rightarrow> 'a \<times> database" where
  "attempt e k failed db continue = (if rejects e k then (failed, db) else continue)"

text \<open>An HTTP response: status code, headers, JSON body.\<close>

record 'b response =
  httpStatus :: nat
  headers :: "(string \<times> string) list"
  json :: 'b

section \<open>Client lifecycle: toggle-status\<close>

text \<open>The body of the request: its fields \<open>action\<close> and \<open>reason\<close>, strings when they are
  there.\<close>

record toggle_body =
  action :: "string option"
  reason :: "string option"

datatype toggle_json =
  ToggleError string
| ToggleSuccess "saas_client option" string

definition toggleNotes :: "env \<Rightarrow> saas_client \<Rightarrow> string \<Rightarrow> string option \<Rightarrow> string option" where
  "toggleNotes e client a r =
     (if truthy r
      then Some (trim (orElse (client_notes client) [] @ [CHR 0x0A] @ ''['' @ isoNow e @ ''] ''
                  @ toUpperCase a @ '': '' @ the r))
      else client_notes client)"

text \<open>\<open>POST /clients/[id]/toggle-status\<close>. The awaited calls are \<open>request.json()\<close> (0), the
  lookup (1), the update (2) and the second lookup (3). The \<open>default\<close> branch of the
  \<open>switch\<close> cannot be reached after the first check and is the last \<open>else\<close> here.\<close>

definition toggleFailed :: "toggle_json response" where
  "toggleFailed =
     \<lparr>httpStatus = 500, headers = [], json = ToggleError ''Failed to update client status''\<rparr>"

definition toggleStatus ::
  "env \<Rightarrow> string \<Rightarrow> toggle_body \<Rightarrow> database \<Rightarrow> toggle_json response \<times> database" where
  "toggleStatus e ident body db =
     attempt e 0 toggleFailed db
       (if \<not> truthy (action body)
           \<or> the (action body) \<notin> set [''enable'', ''disable'', ''suspend'']
        then (\<lparr>httpStatus = 400, headers = [],
                json = ToggleError
                  ''Invalid action. Must be \"enable\", \"disable\", or \"suspend\"''\<rparr>, db)
        else
          attempt e 1 toggleFailed db
            (case selectFirst (\<lambda>c. client_id c = ident) (saasClients db) of
               None \<Rightarrow>
                 (\<lparr>httpStatus = 404, headers = [], json = ToggleError ''Client not found''\<rparr>, db)
             | Some client \<Rightarrow>
                 (let a = the (action body);
                      newStatus = (if a = ''enable'' then ''active'' else ''suspended'');
                      newSubscriptionStatus =
                        (if a = ''enable''
                         then (if subscriptionStatus client = ''cancelled'' then ''active''
                               else subscriptionStatus client)
                         else if a = ''disable'' then subscriptionStatus client
                         else ''suspended'');
                      db' = db\<lparr>saasClients :=
                              updateWhere (\<lambda>c. client_id c = ident)
                                (\<lambda>c. c\<lparr>status := newStatus,
                                       subscriptionStatus := newSubscriptionStatus,
                                       client_notes := toggleNotes e client a (reason body),
                                       updatedAt := now e\<rparr>)
                                (saasClients db)\<rparr>
                  in attempt e 2 toggleFailed db
                       (attempt e 3 toggleFailed db'
                          (\<lparr>httpStatus = 200, headers = [],
                            json = ToggleSuccess
                                     (selectFirst (\<lambda>c. client_id c = ident) (saasClients db'))
                                     (''Client website '' @ a @ ''d successfully'')\<rparr>, db')))))"

section \<open>Domain normalizer\<close>

text \<open>
  \<open>extractDomain\<close> calls the platform's \<open>URL\<close> class, which is not code of this repository.
  The class is a parameter here: \<open>hostnameOf s\<close> is \<open>Some\<close> of \<open>new URL(s).hostname\<close>, or
  \<open>None\<close> when the constructor throws. The \<open>catch\<close> branch is the \<open>None\<close> case.
\<close>

definition extractDomain :: "(string \<Rightarrow> string option) \<Rightarrow> string \<Rightarrow> string" where
  "extractDomain hostnameOf url =
     (case hostnameOf (if startsWith url ''http'' then url else ''https://'' @ url) of
        Some hostname \<Rightarrow> toLowerCase hostname
      | None \<Rightarrow> toLowerCase url)"

text \<open>
  For the worked examples the parameter is instantiated with \<open>urlHostname\<close>, a model of the
  host part of the WHATWG URL parser that the platform implements. It covers absolute URLs
  in ASCII whose host is a plain domain name: scheme, \<open>:\<close>, any run of slashes for
  \<open>http\<close> and \<open>https\<close>, optional credentials before the last \<open>@\<close>, host, optional decimal
  port. Percent-escapes, IDNA, IPv4 and IPv6 literals and stripped white space are outside it.
  \<open>extractDomain\<close> only hands it strings that begin with \<open>http\<close>, so the only special
  schemes that occur are \<open>http\<close> and \<open>https\<close>. Outside the URLs it covers its value is
  not the platform's; it is used below on URLs it covers only, and no general statement
  rests on it.
\<close>

definition isAsciiAlpha :: "char \<Rightarrow> bool" where
  "isAsciiAlpha c =
     (c \<in> set ''ABCDEFGHIJKLMNOPQRSTUVWXYZabcdefghijklmnopqrstuvwxyz'')"

definition isAsciiDigit :: "char \<Rightarrow> bool" where
  "isAsciiDigit c = (c \<in> set ''0123456789'')"

definition isSchemeChar :: "char \<Rightarrow> bool" where
  "isSchemeChar c = (isAsciiAlpha c \<or> isAsciiDigit c \<or> c \<in> set ''+-.'')"

definition isForbiddenHostChar :: "char \<Rightarrow> bool" where
  "isForbiddenHostChar c =
     ((of_char c :: nat) \<le> 32 \<or> (of_char c :: nat) = 127 \<or> c = CHR 0x5C
      \<or> c \<in> set ''#/:<>?@[]^|%'')"

fun decimalValue :: "nat \<Rightarrow> string \<Rightarrow> nat" where
  "decimalValue acc [] = acc"
| "decimalValue acc (c # cs) = decimalValue (10 * acc + (of_char c - 48)) cs"

text \<open>The part of the authority after its last \<open>@\<close>.\<close>

definition afterLastAt :: "string \<Rightarrow> string" where
  "afterLastAt s = rev (takeWhile (\<lambda>c. c \<noteq> CHR ''@'') (rev s))"

definition authorityOf :: "bool \<Rightarrow> string \<Rightarrow> string" where
  "authorityOf special s =
     takeWhile (\<lambda>c. c \<notin> set ''/?#'' \<and> (if special then c \<noteq> CHR 0x5C else True)) s"

definition hostAndPort :: "bool \<Rightarrow> string \<Rightarrow> string option" where
  "hostAndPort special authority =
     (let hp = afterLastAt authority;
          host = takeWhile (\<lambda>c. c \<noteq> CHR '':'') hp;
          port = drop 1 (dropWhile (\<lambda>c. c \<noteq> CHR '':'') hp)
      in if special \<and> host = [] then None
         else if \<not> list_all isAsciiDigit port \<or> decimalValue 0 port > 65535 then None
         else if list_ex isForbiddenHostChar host then None
         else Some (if special then toLowerCase host else host))"

definition urlHostname :: "string \<Rightarrow> string option" where
  "urlHostname input =
     (case input of
        [] \<Rightarrow> None
      | c # _ \<Rightarrow>
          if \<not> isAsciiAlpha c then None
          else
            (let scheme = toLowerCase (takeWhile isSchemeChar input);
                 rest = dropWhile isSchemeChar input
             in case rest of
                  [] \<Rightarrow> None
                | d # after \<Rightarrow>
                    if d \<noteq> CHR '':'' then None
                    else if scheme = ''http'' \<or> scheme = ''https''
                    then hostAndPort True
                           (authorityOf True
                              (dropWhile (\<lambda>x. x = CHR ''/'' \<or> x = CHR 0x5C) after))
                    else if startsWith after ''//''
                    then hostAndPort False (authorityOf False (drop 2 after))
                    else Some []))"

section \<open>License verifier\<close>

definition corsHeaders :: "(string \<times> string) list" where
  "corsHeaders =
     [(''Access-Control-Allow-Origin'', ''*''),
      (''Access-Control-Allow-Methods'', ''GET, POST, OPTIONS''),
      (''Access-Control-Allow-Headers'', ''Content-Type, Authorization'')]"

text \<open>
  The request of \<open>POST /verify-license\<close>: the body as \<open>request.json()\<close> resolves it, and the
  headers the handler reads. \<open>bodyIsNull\<close> says that the body is \<open>null\<close>; of any other body the
  handler reads the properties \<open>licenseKey\<close> and \<open>domain\<close> (\<open>JUndefined\<close> where the body has
  none, as for a body that is a number, a string or an array).
\<close>

record verify_request =
  bodyIsNull :: bool
  req_licenseKey :: js_value
  req_domain :: js_value
  xForwardedFor :: "string option"
  xRealIp :: "string option"
  userAgentHeader :: "string option"

record client_projection =
  proj_id :: string
  proj_companyName :: string
  proj_subscriptionType :: string
  proj_subscriptionEndDate :: "int option"

text \<open>The body: \<open>{valid: false, error}\<close> or \<open>{valid: true, client}\<close>.\<close>

datatype verify_json =
  VerifyInvalid string
| VerifyValid client_projection

definition getClientIP :: "verify_request \<Rightarrow> string" where
  "getClientIP req =
     (let first = map_option (takeWhile (\<lambda>c. c \<noteq> CHR '','')) (xForwardedFor req)
      in if truthy first then the first else orElse (xRealIp req) ''unknown'')"

definition insertLog ::
  "env \<Rightarrow> verify_request \<Rightarrow> string \<Rightarrow> js_value \<Rightarrow> string \<Rightarrow> string \<Rightarrow> string option
     \<Rightarrow> database \<Rightarrow> database" where
  "insertLog e req cid key rdomain vstatus err db =
     db\<lparr>licenseVerificationLogs := licenseVerificationLogs db @
          [\<lparr>log_id = freshId e, log_clientId = cid, log_licenseKey = key,
            log_requestDomain = rdomain, log_requestIp = getClientIP req,
            log_userAgent = orElse (userAgentHeader req) ''unknown'',
            log_verificationStatus = vstatus, log_errorMessage = err,
            log_responseTime = now e - startTime e\<rparr>]\<rparr>"

text \<open>\<open>if (subscriptionEndDate) { ... if (now > expiryDate)\<close>: a date is set and the clock
  is strictly after it.\<close>

definition isExpired :: "env \<Rightarrow> int option \<Rightarrow> bool" where
  "isExpired e endDate = (case endDate of None \<Rightarrow> False | Some d \<Rightarrow> now e > d)"

definition reply :: "nat \<Rightarrow> 'b \<Rightarrow> 'b response" where
  "reply code b = \<lparr>httpStatus = code, headers = corsHeaders, json = b\<rparr>"

text \<open>
  \<open>extractDomain\<close> applied to a value of the body. Its parameter is typed \<open>string\<close> but the
  body is untyped: on a value that is not a string, \<open>url.startsWith\<close> throws inside \<open>try\<close>
  and \<open>url.toLowerCase\<close> throws inside \<open>catch\<close>, so the call throws (\<open>None\<close>).
\<close>

definition extractDomainOf :: "(string \<Rightarrow> string option) \<Rightarrow> js_value \<Rightarrow> string option" where
  "extractDomainOf hostnameOf v =
     (case v of JString url \<Rightarrow> Some (extractDomain hostnameOf url) | _ \<Rightarrow> None)"

text \<open>\<open>POST /verify-license\<close>. The awaited calls are \<open>request.json()\<close> (0), the lookup (1)
  and the one or two writes of the branch taken (2, 3). Destructuring a \<open>null\<close> body throws,
  and so does \<open>extractDomain\<close> on a domain that is not a string; both end in the \<open>catch\<close>
  branch before the store is touched.\<close>

definition verifyFailed :: "verify_json response" where
  "verifyFailed = reply 500 (VerifyInvalid ''Internal server error during license verification'')"

definition verifyLicensePOST ::
  "(string \<Rightarrow> string option) \<Rightarrow> env \<Rightarrow> verify_request \<Rightarrow> database
     \<Rightarrow> verify_json response \<times> database" where
  "verifyLicensePOST hostnameOf e req db =
     attempt e 0 verifyFailed db
       (if bodyIsNull req then (verifyFailed, db)
        else if \<not> jsTruthy (req_licenseKey req) \<or> \<not> jsTruthy (req_domain req)
        then (reply 400 (VerifyInvalid ''License key and domain are required''), db)
        else
          (case extractDomainOf hostnameOf (req_domain req) of
             None \<Rightarrow> (verifyFailed, db)
           | Some requestDomain \<Rightarrow>
           (let key = req_licenseKey req in
            attempt e 1 verifyFailed db
             (case selectFirst (\<lambda>c. keyEquals db key (licenseKey c)) (saasClients db) of
                None \<Rightarrow>
                  attempt e 2 verifyFailed db
                    (reply 401 (VerifyInvalid ''Invalid license key''),
                     insertLog e req ''unknown'' key requestDomain ''invalid''
                       (Some ''License key not found'') db)
              | Some clientData \<Rightarrow>
                  if status clientData \<noteq> ''active''
                  then attempt e 2 verifyFailed db
                         (reply 403 (VerifyInvalid (''License is '' @ status clientData)),
                          insertLog e req (client_id clientData) key requestDomain ''suspended''
                            (Some (''Client status: '' @ status clientData)) db)
                  else
                    (let clientDomain = extractDomain hostnameOf (websiteDomain clientData)
                     in if requestDomain \<noteq> clientDomain
                        then attempt e 2 verifyFailed db
                               (reply 403 (VerifyInvalid
                                  (''Domain not authorized for this license. Expected: ''
                                     @ clientDomain @ '', Got: '' @ requestDomain)),
                                insertLog e req (client_id clientData) key requestDomain
                                  ''invalid''
                                  (Some (''Domain mismatch: '' @ requestDomain
                                     @ '' not authorized for '' @ clientDomain)) db)
                        else if subscriptionStatus clientData \<noteq> ''active''
                        then attempt e 2 verifyFailed db
                               (reply 402 (VerifyInvalid
                                  (''Subscription is '' @ subscriptionStatus clientData)),
                                insertLog e req (client_id clientData) key requestDomain
                                  ''expired''
                                  (Some (''Subscription status: ''
                                     @ subscriptionStatus clientData)) db)
                        else if isExpired e (subscriptionEndDate clientData)
                        then
                          (let db' = db\<lparr>saasClients :=
                                  updateWhere (\<lambda>c. client_id c = client_id clientData)
                                    (\<lambda>c. c\<lparr>subscriptionStatus := ''expired'',
                                           updatedAt := now e\<rparr>)
                                    (saasClients db)\<rparr>
                           in attempt e 2 verifyFailed db
                                (attempt e 3 verifyFailed db'
                                   (reply 402 (VerifyInvalid ''Subscription has expired''),
                                    insertLog e req (client_id clientData) key requestDomain
                                      ''expired'' (Some ''Subscription expired'') db')))
                        else
                          (let db' = db\<lparr>saasClients :=
                                  updateWhere (\<lambda>c. client_id c = client_id clientData)
                                    (\<lambda>c. c\<lparr>lastAccessDate := Some (now e),
                                           lastVerificationDate := Some (now e),
                                           updatedAt := now e\<rparr>)
                                    (saasClients db)\<rparr>
                           in attempt e 2 verifyFailed db
                                (attempt e 3 verifyFailed db'
                                   (reply 200 (VerifyValid
                                      \<lparr>proj_id = client_id clientData,
                                       proj_companyName = companyName clientData,
                                       proj_subscriptionType = subscriptionType clientData,
                                       proj_subscriptionEndDate =
                                         subscriptionEndDate clientData\<rparr>),
                                    insertLog e req (client_id clientData) key requestDomain
                                      ''valid'' None db'))))))))"

text \<open>\<open>GET /verify-license?license=&domain=\<close>: the two query parameters.\<close>

record check_request =
  q_license :: "string option"
  q_domain :: "string option"

text \<open>The body: \<open>{valid: false, error}\<close> or \<open>{valid: true, expiresAt}\<close>.\<close>

datatype check_json =
  CheckInvalid string
| CheckValid "int option"

text \<open>The only awaited call of the lightweight check is the lookup (0).\<close>

definition checkFailed :: "check_json response" where
  "checkFailed = reply 500 (CheckInvalid ''Internal server error'')"

definition verifyLicenseGET ::
  "(string \<Rightarrow> string option) \<Rightarrow> env \<Rightarrow> check_request \<Rightarrow> database
     \<Rightarrow> check_json response \<times> database" where
  "verifyLicenseGET hostnameOf e req db =
     (if \<not> truthy (q_license req) \<or> \<not> truthy (q_domain req)
      then (reply 400 (CheckInvalid ''License key and domain are required''), db)
      else
        (let key = the (q_license req);
             requestDomain = extractDomain hostnameOf (the (q_domain req))
         in attempt e 0 checkFailed db
           (case selectFirst (\<lambda>c. licenseKey c = key) (saasClients db) of
              None \<Rightarrow> (reply 401 (CheckInvalid ''Invalid license key''), db)
            | Some clientData \<Rightarrow>
                if status clientData \<noteq> ''active''
                then (reply 403 (CheckInvalid (''License is '' @ status clientData)), db)
                else if subscriptionStatus clientData \<noteq> ''active''
                then (reply 402 (CheckInvalid
                        (''Subscription is '' @ subscriptionStatus clientData)), db)
                else
                  (let clientDomain = extractDomain hostnameOf (websiteDomain clientData)
                   in if requestDomain \<noteq> clientDomain
                      then (reply 403 (CheckInvalid
                              (''Domain not authorized. Expected: '' @ clientDomain
                                 @ '', Got: '' @ requestDomain)), db)
                      else if isExpired e (subscriptionEndDate clientData)
                      then (reply 402 (CheckInvalid ''Subscription expired''), db)
                      else (reply 200 (CheckValid (subscriptionEndDate clientData)), db)))))"

section \<open>License lookup by domain\<close>

text \<open>The body of \<open>POST /check-by-domain\<close>: \<open>{valid: false, error}\<close> or \<open>{valid: true,
  globallyVerified, licenseKey, client: {id, companyName, subscriptionStatus,
  subscriptionEndDate}}\<close>.\<close>

record domain_client =
  dc_id :: string
  dc_companyName :: string
  dc_subscriptionStatus :: string
  dc_subscriptionEndDate :: "int option"

datatype domain_json =
  DomainInvalid string
| DomainValid bool string domain_client

text \<open>\<open>POST /check-by-domain\<close>, on the \<open>domain\<close> of the body, a string when it is there. The
  awaited calls are \<open>request.json()\<close> (0) and the lookup (1).\<close>

definition domainFailed :: "domain_json response" where
  "domainFailed = reply 500 (DomainInvalid ''Internal server error during license verification'')"

definition checkByDomainPOST ::
  "(string \<Rightarrow> string option) \<Rightarrow> env \<Rightarrow> string option \<Rightarrow> database
     \<Rightarrow> domain_json response \<times> database" where
  "checkByDomainPOST hostnameOf e domain db =
     attempt e 0 domainFailed db
       (if \<not> truthy domain
        then (reply 400 (DomainInvalid ''Domain is required''), db)
        else
          (let requestDomain = extractDomain hostnameOf (the domain)
           in attempt e 1 domainFailed db
             (case selectFirst (\<lambda>c. websiteDomain c = requestDomain) (saasClients db) of
                None \<Rightarrow> (reply 404 (DomainInvalid ''No license found for this domain''), db)
              | Some clientData \<Rightarrow>
                  if status clientData \<noteq> ''active''
                  then (reply 403 (DomainInvalid (''License is '' @ status clientData)), db)
                  else if subscriptionStatus clientData \<noteq> ''active''
                  then (reply 402 (DomainInvalid
                          (''Subscription is '' @ subscriptionStatus clientData)), db)
                  else if isExpired e (subscriptionEndDate clientData)
                  then (reply 402 (DomainInvalid ''Subscription has expired''), db)
                  else (reply 200 (DomainValid (licenseVerified clientData = ''yes'')
                          (licenseKey clientData)
                          \<lparr>dc_id = client_id clientData,
                           dc_companyName = companyName clientData,
                           dc_subscriptionStatus = subscriptionStatus clientData,
                           dc_subscriptionEndDate = subscriptionEndDate clientData\<rparr>), db))))"

section \<open>Key generator\<close>

text \<open>\<open>Buffer.toString('hex')\<close>: two lowercase hexadecimal digits per byte.\<close>

definition hexDigit :: "nat \<Rightarrow> char" where
  "hexDigit n = ''0123456789abcdef'' ! (n mod 16)"

definition hexByte :: "8 word \<Rightarrow> string" where
  "hexByte b = [hexDigit (unat b div 16), hexDigit (unat b mod 16)]"

definition toHex :: "8 word list \<Rightarrow> string" where
  "toHex bs = concat (map hexByte bs)"

text \<open>\<open>s.match(/.{1,4}/g)\<close> on a string without line terminators: consecutive groups of four
  characters, the last one shorter when the length is no multiple of four; no group (the
  result \<open>null\<close>) for the empty string.\<close>

fun matchGroups :: "string \<Rightarrow> string list" where
  "matchGroups (a # b # c # d # rest) = [a, b, c, d] # matchGroups rest"
| "matchGroups [] = []"
| "matchGroups s = [s]"

fun joinWith :: "string \<Rightarrow> string list \<Rightarrow> string" where
  "joinWith sep [] = []"
| "joinWith sep [x] = x"
| "joinWith sep (x # y # rest) = x @ sep @ joinWith sep (y # rest)"

text \<open>\<open>generateLicenseKey\<close>; its argument is what \<open>crypto.randomBytes(12)\<close> returned.
  \<open>match(...)?.join('-') || randomPart\<close> falls back to \<open>randomPart\<close> when there is no match
  or the joined string is empty.\<close>

definition generateLicenseKey :: "8 word list \<Rightarrow> string" where
  "generateLicenseKey randomBytes =
     (let prefix = ''LIC'';
          randomPart = toUpperCase (toHex randomBytes);
          groups = matchGroups randomPart;
          formatted = (if groups = [] \<or> joinWith ''-'' groups = [] then randomPart
                       else joinWith ''-'' groups)
      in prefix @ ''-'' @ formatted)"

text \<open>A matcher for the regular expression \<open>^LIC(-[0-9A-F]{4}){n}$\<close>.\<close>

definition isUpperHexDigit :: "char \<Rightarrow> bool" where
  "isUpperHexDigit c = (c \<in> set ''0123456789ABCDEF'')"

definition isLowerHexDigit :: "char \<Rightarrow> bool" where
  "isLowerHexDigit c = (c \<in> set ''0123456789abcdef'')"

fun matchesDashGroups :: "nat \<Rightarrow> string \<Rightarrow> bool" where
  "matchesDashGroups 0 s = (s = [])"
| "matchesDashGroups (Suc n) (h # a # b # c # d # rest) =
     (h = CHR ''-'' \<and> isUpperHexDigit a \<and> isUpperHexDigit b \<and> isUpperHexDigit c
        \<and> isUpperHexDigit d \<and> matchesDashGroups n rest)"
| "matchesDashGroups (Suc n) s = False"

definition matchesLicensePattern :: "nat \<Rightarrow> string \<Rightarrow> bool" where
  "matchesLicensePattern n s = (take 3 s = ''LIC'' \<and> matchesDashGroups n (drop 3 s))"

section \<open>HMAC client signer\<close>

text \<open>
  \<open>crypto.createHmac('sha256', secret).update(toSign).digest()\<close> is the platform's; it is
  the parameter \<open>hmacSha256\<close>, from the key and the message to the bytes of the digest.
  \<open>digest('hex')\<close> is \<open>toHex\<close> of them. An omitted \<open>body\<close> (\<open>None\<close>) defaults to the empty
  string.
\<close>

definition createHmacSignature ::
  "(string \<Rightarrow> string \<Rightarrow> 8 word list) \<Rightarrow> string \<Rightarrow> string \<Rightarrow> string \<Rightarrow> string
     \<Rightarrow> string option \<Rightarrow> string" where
  "createHmacSignature hmacSha256 secret timestamp path search body =
     (let toSign = timestamp @ '':'' @ path @ '':'' @ search @ '':''
                     @ (case body of None \<Rightarrow> [] | Some b \<Rightarrow> b)
      in toHex (hmacSha256 secret toSign))"

section \<open>Tenant user fetcher\<close>

record TenantClient = tenant_base +
  apiBaseUrl :: "string option"
  authType :: string
  apiKey :: "string option"
  publicKey :: "string option"
  apiStatus :: "string option"

record fetch_options =
  opt_limit :: "int option"
  opt_cursor :: "string option"
  opt_q :: "string option"
  opt_updatedSince :: "string option"

text \<open>What \<open>fetchTenantUsers\<close> throws: an \<open>Error\<close> with its message, or a failure of the
  platform (the \<open>URL\<close> constructor, \<open>fetch\<close>, \<open>response.text()\<close>, \<open>response.json()\<close>).\<close>

datatype js_error =
  Error string
| InvalidUrl
| FetchRejected
| TextRejected
| JsonRejected

text \<open>A request as handed to \<open>fetch\<close>, and what \<open>fetch\<close> resolves to.\<close>

record http_request =
  req_url :: string
  req_method :: string
  req_headers :: "(string \<times> string) list"

record 'd http_response =
  resp_ok :: bool
  resp_status :: int
  resp_statusText :: string
  resp_text :: "string option"
  resp_json :: "'d option"

text \<open>
  The platform, as parameters: \<open>makeUrl path base params\<close> is \<open>new URL(path, base)\<close> after
  the \<open>searchParams.set\<close> calls of \<open>params\<close>, as (\<open>pathname\<close>, \<open>search\<close>, \<open>toString()\<close>), or
  \<open>None\<close> when the constructor throws; \<open>fetch\<close> answers a request, or \<open>None\<close> when it
  rejects; \<open>hmacSha256\<close> as above; \<open>showInt\<close> is \<open>String\<close> of a number.
\<close>

record 'd platform =
  makeUrl :: "string \<Rightarrow> string \<Rightarrow> (string \<times> string) list \<Rightarrow> (string \<times> string \<times> string) option"
  fetch :: "http_request \<Rightarrow> 'd http_response option"
  hmacSha256 :: "string \<Rightarrow> string \<Rightarrow> 8 word list"
  showInt :: "int \<Rightarrow> string"

definition queryParams :: "(int \<Rightarrow> string) \<Rightarrow> fetch_options \<Rightarrow> (string \<times> string) list" where
  "queryParams shw options =
     (case opt_limit options of
        None \<Rightarrow> [] | Some n \<Rightarrow> if n = 0 then [] else [(''limit'', shw n)])
     @ (if truthy (opt_cursor options) then [(''cursor'', the (opt_cursor options))] else [])
     @ (if truthy (opt_q options) then [(''q'', the (opt_q options))] else [])
     @ (if truthy (opt_updatedSince options)
        then [(''updated_since'', the (opt_updatedSince options))] else [])"

text \<open>\<open>fetchTenantUsers\<close>. The second component of the state and of the result is the list
  of requests sent over the network so far, the newest last.\<close>

definition fetchTenantUsers ::
  "'d platform \<Rightarrow> env \<Rightarrow> TenantClient \<Rightarrow> fetch_options \<Rightarrow> http_request list
     \<Rightarrow> (js_error + 'd) \<times> http_request list" where
  "fetchTenantUsers pf e tenant options sent =
     (if apiStatus tenant \<noteq> Some ''active''
      then (Inl (Error (''Tenant API is '' @ orElse (apiStatus tenant) ''inactive'')), sent)
      else if \<not> truthy (apiBaseUrl tenant)
      then (Inl (Error ''Tenant API base URL is not configured''), sent)
      else if authType tenant \<noteq> ''HMAC'' \<or> \<not> truthy (apiKey tenant)
      then (Inl (Error
              ''Only HMAC authentication is currently supported and API key is required''),
            sent)
      else
        (case makeUrl pf ''/api/admin/users'' (the (apiBaseUrl tenant))
                (queryParams (showInt pf) options) of
           None \<Rightarrow> (Inl InvalidUrl, sent)
         | Some (pathname, search, href) \<Rightarrow>
             (let timestamp = showInt pf (now e);
                  signature = createHmacSignature (hmacSha256 pf) (the (apiKey tenant))
                                timestamp pathname search None;
                  request = \<lparr>req_url = href, req_method = ''GET'',
                             req_headers = [(''x-timestamp'', timestamp),
                                            (''x-signature'', signature),
                                            (''User-Agent'', ''Admin-Panel/1.0'')]\<rparr>
              in case fetch pf request of
                   None \<Rightarrow> (Inl FetchRejected, sent @ [request])
                 | Some response \<Rightarrow>
                     if \<not> resp_ok response
                     then (case resp_text response of
                             None \<Rightarrow> (Inl TextRejected, sent @ [request])
                           | Some errorText \<Rightarrow>
                               (Inl (Error (''Tenant API error ''
                                      @ showInt pf (resp_status response) @ '': ''
                                      @ resp_statusText response)),
                                sent @ [request]))
                     else (case resp_json response of
                             None \<Rightarrow> (Inl JsonRejected, sent @ [request])
                           | Some d \<Rightarrow> (Inr d, sent @ [request])))))"

section \<open>Example data\<close>

text \<open>A store with one tenant, surroundings in which every call is answered, and a
  request, used to run the handlers on concrete inputs.\<close>

definition exampleTenant :: saas_client where
  "exampleTenant =
     \<lparr>client_id = ''c-1'', companyName = ''Bloom and Co'',
      websiteDomain = ''shop.example.com'', licenseKey = ''LIC-00A1-00B2-00C3-00D4-00E5-00F6'',
      status = ''active'', subscriptionType = ''monthly'', subscriptionStatus = ''active'',
      subscriptionEndDate = Some 2000, lastAccessDate = None, lastVerificationDate = None,
      licenseVerified = ''yes'', client_notes = None, updatedAt = 0\<rparr>"

definition exampleDb :: database where
  "exampleDb = \<lparr>saasClients = [exampleTenant], licenseVerificationLogs = [],
                 coercedEq = (\<lambda>v column. False)\<rparr>"

definition exampleEnv :: env where
  "exampleEnv = \<lparr>startTime = 1000, now = 1007, isoNow = ''1970-01-01T00:00:01.007Z'',
                  freshId = ''log-1'', rejectedCall = None\<rparr>"

definition exampleRequest :: verify_request where
  "exampleRequest =
     \<lparr>bodyIsNull = False,
      req_licenseKey = JString ''LIC-00A1-00B2-00C3-00D4-00E5-00F6'',
      req_domain = JString ''https://Shop.Example.com/'',
      xForwardedFor = Some ''203.0.113.7, 10.0.0.1'', xRealIp = None,
      userAgentHeader = None\<rparr>"

text \<open>The query of the lightweight check with the fields of the example request.\<close>

definition exampleQuery :: check_request where
  "exampleQuery =
     \<lparr>q_license = Some ''LIC-00A1-00B2-00C3-00D4-00E5-00F6'',
      q_domain = Some ''https://Shop.Example.com/''\<rparr>"

text \<open>A platform for the tenant user fetcher (every URL is built, every request is
  answered with one user, the digest is two fixed bytes), a tenant that is eligible for API
  calls, and empty options.\<close>

definition examplePlatform :: "string list platform" where
  "examplePlatform =
     \<lparr>makeUrl = (\<lambda>path base params. Some (path, [], base @ path)),
      fetch = (\<lambda>request. Some \<lparr>resp_ok = True, resp_status = 200, resp_statusText = ''OK'',
                                 resp_text = Some [], resp_json = Some [''ann@example.com'']\<rparr>),
      hmacSha256 = (\<lambda>key message. [0x0F, 0xA0]),
      showInt = (\<lambda>n. ''1007'')\<rparr>"

definition exampleApiTenant :: TenantClient where
  "exampleApiTenant =
     \<lparr>client_id = ''c-1'', companyName = ''Bloom and Co'',
      apiBaseUrl = Some ''https://shop.example.com'', authType = ''HMAC'',
      apiKey = Some ''00ff'', publicKey = None, apiStatus = Some ''active''\<rparr>"

definition noOptions :: fetch_options where
  "noOptions = \<lparr>opt_limit = None, opt_cursor = None, opt_q = None, opt_updatedSince = None\<rparr>"

section \<open>Notation for the statements\<close>

text \<open>Every awaited call of the request is answered.\<close>

abbreviation answered :: "env \<Rightarrow> bool" where
  "answered e \<equiv> rejectedCall e = None"

text \<open>The row stored under \<open>ident\<close> after a toggle-status request with action \<open>a\<close>.\<close>

abbreviation toggled :: "env \<Rightarrow> string \<Rightarrow> string \<Rightarrow> string option \<Rightarrow> database \<Rightarrow> saas_client option" where
  "toggled e ident a r db \<equiv>
     selectFirst (\<lambda>c. client_id c = ident)
       (saasClients (snd (toggleStatus e ident \<lparr>action = Some a, reason = r\<rparr> db)))"

text \<open>
  A verification request is \<open>present\<close> when its body is not \<open>null\<close>, its license key is
  truthy and its domain is a string that is not empty; it is \<open>lacking\<close> when its body is not
  \<open>null\<close> and the license key or the domain is not truthy. \<open>domainText\<close> is the domain of a
  present request, \<open>lookup\<close> the row the verifier looks up for the request's key, and
  \<open>accepted\<close> the conditions of the decision pipeline on that row, for the requested
  domain \<open>d\<close>.
\<close>

abbreviation present :: "verify_request \<Rightarrow> bool" where
  "present req \<equiv>
     \<not> bodyIsNull req \<and> jsTruthy (req_licenseKey req)
     \<and> (case req_domain req of JString d \<Rightarrow> d \<noteq> [] | _ \<Rightarrow> False)"

abbreviation lacking :: "verify_request \<Rightarrow> bool" where
  "lacking req \<equiv>
     \<not> bodyIsNull req
     \<and> (\<not> jsTruthy (req_licenseKey req) \<or> \<not> jsTruthy (req_domain req))"

abbreviation domainText :: "verify_request \<Rightarrow> string" where
  "domainText req \<equiv> (case req_domain req of JString d \<Rightarrow> d | _ \<Rightarrow> [])"

abbreviation lookup :: "verify_request \<Rightarrow> database \<Rightarrow> saas_client option" where
  "lookup req db \<equiv>
     selectFirst (\<lambda>c. keyEquals db (req_licenseKey req) (licenseKey c)) (saasClients db)"

abbreviation accepted ::
  "(string \<Rightarrow> string option) \<Rightarrow> env \<Rightarrow> string \<Rightarrow> saas_client \<Rightarrow> bool" where
  "accepted h e d t \<equiv>
     status t = ''active''
     \<and> extractDomain h d = extractDomain h (websiteDomain t)
     \<and> subscriptionStatus t = ''active''
     \<and> (case subscriptionEndDate t of None \<Rightarrow> True | Some end \<Rightarrow> \<not> end < now e)"

text \<open>
  For the lightweight check: both parameters of a query are there; the row looked up for
  its key; the request of the full verification that carries the two parameters of a query
  as the fields of its body (an absent parameter is an absent field), with the headers of
  \<open>req\<close>; and the conditions on the stored row that are named below.
\<close>

abbreviation queried :: "check_request \<Rightarrow> bool" where
  "queried q \<equiv> truthy (q_license q) \<and> truthy (q_domain q)"

abbreviation found :: "check_request \<Rightarrow> database \<Rightarrow> saas_client option" where
  "found q db \<equiv> selectFirst (\<lambda>c. licenseKey c = the (q_license q)) (saasClients db)"

abbreviation fieldOf :: "string option \<Rightarrow> js_value" where
  "fieldOf v \<equiv> (case v of None \<Rightarrow> JUndefined | Some s \<Rightarrow> JString s)"

abbreviation postOf :: "check_request \<Rightarrow> verify_request \<Rightarrow> verify_request" where
  "postOf q req \<equiv>
     req\<lparr>bodyIsNull := False, req_licenseKey := fieldOf (q_license q),
         req_domain := fieldOf (q_domain q)\<rparr>"

abbreviation accountIssue :: "saas_client \<Rightarrow> bool" where
  "accountIssue t \<equiv> status t \<noteq> ''active''"

abbreviation subscriptionInactive :: "saas_client \<Rightarrow> bool" where
  "subscriptionInactive t \<equiv> subscriptionStatus t \<noteq> ''active''"

abbreviation domainIssue :: "(string \<Rightarrow> string option) \<Rightarrow> check_request \<Rightarrow> saas_client \<Rightarrow> bool" where
  "domainIssue h q t \<equiv>
     extractDomain h (the (q_domain q)) \<noteq> extractDomain h (websiteDomain t)"

abbreviation gateClash :: "(string \<Rightarrow> string option) \<Rightarrow> check_request \<Rightarrow> database \<Rightarrow> bool" where
  "gateClash h q db \<equiv>
     queried q
     \<and> (\<exists>t. found q db = Some t \<and> \<not> accountIssue t \<and> subscriptionInactive t
            \<and> domainIssue h q t)"

text \<open>The status codes of the lightweight check for a query, and of the full verification
  for the request that carries the same two fields.\<close>

abbreviation getCode :: "(string \<Rightarrow> string option) \<Rightarrow> env \<Rightarrow> check_request \<Rightarrow> database \<Rightarrow> nat" where
  "getCode h e q db \<equiv> httpStatus (fst (verifyLicenseGET h e q db))"

abbreviation postCode ::
  "(string \<Rightarrow> string option) \<Rightarrow> env \<Rightarrow> check_request \<Rightarrow> verify_request \<Rightarrow> database \<Rightarrow> nat" where
  "postCode h e q req db \<equiv> httpStatus (fst (verifyLicensePOST h e (postOf q req) db))"

text \<open>The API-eligibility of a tenant (\<open>apiStatus\<close> is \<open>active\<close>, \<open>apiBaseUrl\<close> is set,
  \<open>authType\<close> is \<open>HMAC\<close>, \<open>apiKey\<close> is set; set means neither null nor empty), and the
  three messages of the precondition errors.\<close>

abbreviation apiEligible :: "TenantClient \<Rightarrow> bool" where
  "apiEligible tenant \<equiv>
     apiStatus tenant = Some ''active'' \<and> truthy (apiBaseUrl tenant)
       \<and> authType tenant = ''HMAC'' \<and> truthy (apiKey tenant)"

abbreviation pausedMessage :: "TenantClient \<Rightarrow> string" where
  "pausedMessage tenant \<equiv> ''Tenant API is '' @ orElse (apiStatus tenant) ''inactive''"

abbreviation noBaseUrlMessage :: string where
  "noBaseUrlMessage \<equiv> ''Tenant API base URL is not configured''"

abbreviation authMessage :: string where
  "authMessage \<equiv> ''Only HMAC authentication is currently supported and API key is required''"

text \<open>The string that is signed.\<close>

abbreviation toSign :: "string \<Rightarrow> string \<Rightarrow> string \<Rightarrow> string \<Rightarrow> string" where
  "toSign timestamp path search body \<equiv>
     timestamp @ '':'' @ path @ '':'' @ search @ '':'' @ body"

section \<open>Facts about the store operations\<close>

lemma selectFirst_holds: "selectFirst p rows = Some r \<Longrightarrow> p r"
  unfolding selectFirst_def by (induction rows) (auto split: if_splits)

lemma selectFirst_updateWhere:
  "(\<And>x. p (f x) = p x) \<Longrightarrow>
     selectFirst p (updateWhere q f rows)
       = map_option (\<lambda>r. if q r then f r else r) (selectFirst p rows)"
  unfolding selectFirst_def updateWhere_def
  by (induction rows) auto

lemma map_updateWhere:
  "(\<And>r. g (f r) = g r) \<Longrightarrow> map g (updateWhere q f rows) = map g rows"
  unfolding updateWhere_def by (induction rows) auto

lemma insertLog_clients [simp]:
  "saasClients (insertLog e req cid key rd vs err db) = saasClients db"
  by (simp add: insertLog_def)

lemma jsTruthy_string [simp]: "jsTruthy (JString s) = (s \<noteq> [])"
  by (simp add: jsTruthy_def)

lemma keyEquals_string [simp]: "keyEquals db (JString s) column = (column = s)"
  by (simp add: keyEquals_def)

lemma keyEquals_insertLog [simp]:
  "keyEquals (insertLog e req cid key rd vs err db) = keyEquals db"
  by (rule ext, rule ext) (simp add: keyEquals_def insertLog_def split: js_value.splits)

lemma keyEquals_clients [simp]: "keyEquals (db\<lparr>saasClients := rows\<rparr>) = keyEquals db"
  by (rule ext, rule ext) (simp add: keyEquals_def split: js_value.splits)

lemma attempt_answered [simp]:
  "answered e \<Longrightarrow> attempt e k failed db continue = continue"
  by (simp add: attempt_def rejects_def)

lemma example_env_answered [simp]: "answered exampleEnv"
  by (simp add: exampleEnv_def)

lemmas url_eval =
  extractDomain_def urlHostname_def startsWith_def toLowerCase_def lowerChar_def
  isAsciiAlpha_def isSchemeChar_def isAsciiDigit_def hostAndPort_def authorityOf_def
  afterLastAt_def isForbiddenHostChar_def

lemma example_lookup: "lookup exampleRequest exampleDb = Some exampleTenant"
  by (simp add: exampleRequest_def exampleDb_def exampleTenant_def selectFirst_def)

lemma example_present: "present exampleRequest"
  by (simp add: exampleRequest_def jsTruthy_def)

lemma present_domain:
  "present req \<Longrightarrow>
     jsTruthy (req_domain req)
     \<and> extractDomainOf h (req_domain req) = Some (extractDomain h (domainText req))"
  by (auto simp: extractDomainOf_def split: js_value.splits)

lemma example_domain_text: "domainText exampleRequest = ''https://Shop.Example.com/''"
  by (simp add: exampleRequest_def)

lemma example_request_domain:
  "extractDomain urlHostname ''https://Shop.Example.com/'' = ''shop.example.com''"
  by (simp add: url_eval)

lemma example_stored_domain:
  "extractDomain urlHostname ''shop.example.com'' = ''shop.example.com''"
  by (simp add: url_eval)

section \<open>Client lifecycle\<close>

lemma toggle_found:
  assumes f: "selectFirst (\<lambda>c. client_id c = ident) (saasClients db) = Some client"
    and a: "a = ''enable'' \<or> a = ''disable'' \<or> a = ''suspend''"
    and ok: "answered e"
  shows "toggleStatus e ident \<lparr>action = Some a, reason = r\<rparr> db =
     (let new = client
            \<lparr>status := (if a = ''enable'' then ''active'' else ''suspended''),
             subscriptionStatus :=
               (if a = ''enable''
                then (if subscriptionStatus client = ''cancelled'' then ''active''
                      else subscriptionStatus client)
                else if a = ''disable'' then subscriptionStatus client
                else ''suspended''),
             client_notes := toggleNotes e client a r,
             updatedAt := now e\<rparr>
      in (\<lparr>httpStatus = 200, headers = [],
            json = ToggleSuccess (Some new) (''Client website '' @ a @ ''d successfully'')\<rparr>,
          db\<lparr>saasClients :=
               updateWhere (\<lambda>c. client_id c = ident)
                 (\<lambda>c. c\<lparr>status := status new, subscriptionStatus := subscriptionStatus new,
                        client_notes := client_notes new, updatedAt := now e\<rparr>)
                 (saasClients db)\<rparr>))"
proof -
  have ident: "client_id client = ident"
    using selectFirst_holds[OF f] .
  have t: "truthy (Some a)"
    using a by (auto simp: truthy_def)
  have m: "a \<in> set [''enable'', ''disable'', ''suspend'']"
    using a by auto
  show ?thesis
    using f ident t m ok
    by (simp add: toggleStatus_def selectFirst_updateWhere Let_def)
qed

lemma toggled_row:
  assumes f: "selectFirst (\<lambda>c. client_id c = ident) (saasClients db) = Some client"
    and a: "a = ''enable'' \<or> a = ''disable'' \<or> a = ''suspend''"
    and ok: "answered e"
  shows "toggled e ident a r db =
     Some (client
            \<lparr>status := (if a = ''enable'' then ''active'' else ''suspended''),
             subscriptionStatus :=
               (if a = ''enable''
                then (if subscriptionStatus client = ''cancelled'' then ''active''
                      else subscriptionStatus client)
                else if a = ''disable'' then subscriptionStatus client
                else ''suspended''),
             client_notes := toggleNotes e client a r,
             updatedAt := now e\<rparr>)"
proof -
  have ident: "client_id client = ident"
    using selectFirst_holds[OF f] .
  show ?thesis
    using f ident
    by (simp add: toggle_found[OF f a ok] Let_def selectFirst_updateWhere)
qed

text \<open>
  Claim C9. For a tenant that exists, \<open>enable\<close> sets \<open>status\<close> to \<open>active\<close> and turns
  \<open>subscriptionStatus\<close> into \<open>active\<close> only when it was \<open>cancelled\<close> (an \<open>expired\<close> or
  \<open>suspended\<close> subscription, like any other value, stays as it was); \<open>disable\<close> sets
  \<open>status\<close> to \<open>suspended\<close> and keeps \<open>subscriptionStatus\<close>; \<open>suspend\<close> sets both to
  \<open>suspended\<close>. The row is the one stored after the request, which the response returns.
  Every awaited call of the request is answered.
\<close>

theorem toggle_status_transitions:
  assumes found: "selectFirst (\<lambda>c. client_id c = ident) (saasClients db) = Some client"
    and ok: "answered e"
  shows "map_option status (toggled e ident ''enable'' r db) = Some ''active''
       \<and> map_option subscriptionStatus (toggled e ident ''enable'' r db)
           = Some (if subscriptionStatus client = ''cancelled'' then ''active''
                   else subscriptionStatus client)
       \<and> map_option status (toggled e ident ''disable'' r db) = Some ''suspended''
       \<and> map_option subscriptionStatus (toggled e ident ''disable'' r db)
           = Some (subscriptionStatus client)
       \<and> map_option status (toggled e ident ''suspend'' r db) = Some ''suspended''
       \<and> map_option subscriptionStatus (toggled e ident ''suspend'' r db) = Some ''suspended''
       \<and> json (fst (toggleStatus e ident \<lparr>action = Some ''enable'', reason = r\<rparr> db))
           = ToggleSuccess (toggled e ident ''enable'' r db) ''Client website enabled successfully''"
proof -
  have en: "''enable'' = ''enable'' \<or> ''enable'' = ''disable'' \<or> ''enable'' = ''suspend''"
    by simp
  have di: "''disable'' = ''enable'' \<or> ''disable'' = ''disable'' \<or> ''disable'' = ''suspend''"
    by simp
  have su: "''suspend'' = ''enable'' \<or> ''suspend'' = ''disable'' \<or> ''suspend'' = ''suspend''"
    by simp
  show ?thesis
    unfolding toggled_row[OF found en ok] toggled_row[OF found di ok]
      toggled_row[OF found su ok]
    by (simp add: toggle_found[OF found en ok] Let_def)
qed

theorem toggle_status_transitions_witness:
  "map_option status (toggled exampleEnv ''c-1'' ''enable'' None
       (exampleDb\<lparr>saasClients := [exampleTenant\<lparr>subscriptionStatus := ''expired''\<rparr>]\<rparr>))
     = Some ''active''
   \<and> map_option subscriptionStatus (toggled exampleEnv ''c-1'' ''enable'' None
       (exampleDb\<lparr>saasClients := [exampleTenant\<lparr>subscriptionStatus := ''expired''\<rparr>]\<rparr>))
     = Some ''expired''
   \<and> map_option subscriptionStatus (toggled exampleEnv ''c-1'' ''suspend'' (Some ''unpaid'')
       (exampleDb\<lparr>saasClients := [exampleTenant\<lparr>subscriptionStatus := ''expired''\<rparr>]\<rparr>))
     = Some ''suspended''"
proof -
  have found: "selectFirst (\<lambda>c. client_id c = ''c-1'')
      (saasClients (exampleDb\<lparr>saasClients := [exampleTenant\<lparr>subscriptionStatus := ''expired''\<rparr>]\<rparr>))
    = Some (exampleTenant\<lparr>subscriptionStatus := ''expired''\<rparr>)"
    by (simp add: selectFirst_def exampleTenant_def)
  show ?thesis
    using toggle_status_transitions[OF found example_env_answered, of None]
      toggle_status_transitions[OF found example_env_answered, of "Some ''unpaid''"]
    by simp
qed

section \<open>Full verification\<close>

lemma verify_post_iff:
  "answered e \<Longrightarrow>
   (\<exists>proj. json (fst (verifyLicensePOST h e req db)) = VerifyValid proj)
     \<longleftrightarrow> (present req
          \<and> (\<exists>t. lookup req db = Some t \<and> accepted h e (domainText req) t))"
  by (auto simp: verifyLicensePOST_def verifyFailed_def extractDomainOf_def Let_def reply_def
        isExpired_def split: option.splits js_value.splits)

lemma verify_post_success:
  assumes "answered e"
    "present req" "lookup req db = Some t" "accepted h e (domainText req) t"
  shows "fst (verifyLicensePOST h e req db) =
           reply 200 (VerifyValid \<lparr>proj_id = client_id t, proj_companyName = companyName t,
              proj_subscriptionType = subscriptionType t,
              proj_subscriptionEndDate = subscriptionEndDate t\<rparr>)
       \<and> lookup req (snd (verifyLicensePOST h e req db))
         = Some (t\<lparr>lastAccessDate := Some (now e), lastVerificationDate := Some (now e),
                   updatedAt := now e\<rparr>)"
  using assms
  by (auto simp: verifyLicensePOST_def extractDomainOf_def Let_def isExpired_def
        selectFirst_updateWhere split: option.splits js_value.splits)

lemma verify_post_failure:
  assumes "answered e"
    "\<nexists>proj. json (fst (verifyLicensePOST h e req db)) = VerifyValid proj"
  shows "(\<exists>err. json (fst (verifyLicensePOST h e req db)) = VerifyInvalid err)
     \<and> map lastAccessDate (saasClients (snd (verifyLicensePOST h e req db)))
         = map lastAccessDate (saasClients db)
     \<and> map lastVerificationDate (saasClients (snd (verifyLicensePOST h e req db)))
         = map lastVerificationDate (saasClients db)"
  using assms
  by (auto simp: verifyLicensePOST_def verifyFailed_def extractDomainOf_def Let_def reply_def
        map_updateWhere split: option.splits if_splits js_value.splits)

text \<open>
  Claim C1. The full verification answers \<open>valid: true\<close> exactly when the request is
  present (a license key, and a domain that is a string, neither empty),
  a tenant is stored under the license key, its \<open>status\<close> is \<open>active\<close>, the canonical
  request domain equals the canonical stored \<open>websiteDomain\<close>, its \<open>subscriptionStatus\<close>
  is \<open>active\<close> and its \<open>subscriptionEndDate\<close> is null or not strictly before now. In that
  case the body carries the projection (id, company name, subscription type, subscription
  end date) of that tenant with status 200, and the tenant's \<open>lastAccessDate\<close> and
  \<open>lastVerificationDate\<close> are now. In every other case the answer is \<open>valid: false\<close> and
  no tenant's \<open>lastAccessDate\<close> or \<open>lastVerificationDate\<close> changes. The URL parser is
  arbitrary, and every awaited call of the request is answered.
\<close>

theorem verify_post_valid_iff:
  assumes ok: "answered e"
  shows
  "((\<exists>proj. json (fst (verifyLicensePOST h e req db)) = VerifyValid proj)
      \<longleftrightarrow> (present req
           \<and> (\<exists>t. lookup req db = Some t \<and> accepted h e (domainText req) t)))
   \<and> (\<forall>t. present req \<and> lookup req db = Some t \<and> accepted h e (domainText req) t \<longrightarrow>
         fst (verifyLicensePOST h e req db) =
           reply 200 (VerifyValid \<lparr>proj_id = client_id t, proj_companyName = companyName t,
              proj_subscriptionType = subscriptionType t,
              proj_subscriptionEndDate = subscriptionEndDate t\<rparr>)
         \<and> lookup req (snd (verifyLicensePOST h e req db))
            = Some (t\<lparr>lastAccessDate := Some (now e), lastVerificationDate := Some (now e),
                      updatedAt := now e\<rparr>))
   \<and> ((\<nexists>proj. json (fst (verifyLicensePOST h e req db)) = VerifyValid proj) \<longrightarrow>
         (\<exists>err. json (fst (verifyLicensePOST h e req db)) = VerifyInvalid err)
       \<and> map lastAccessDate (saasClients (snd (verifyLicensePOST h e req db)))
           = map lastAccessDate (saasClients db)
       \<and> map lastVerificationDate (saasClients (snd (verifyLicensePOST h e req db)))
           = map lastVerificationDate (saasClients db))"
  using verify_post_iff[OF ok, of h req db] verify_post_success[OF ok, of req db _ h]
    verify_post_failure[OF ok, of h req db]
  by blast

theorem verify_post_valid_iff_witness:
  "fst (verifyLicensePOST urlHostname exampleEnv exampleRequest exampleDb) =
     reply 200 (VerifyValid \<lparr>proj_id = ''c-1'', proj_companyName = ''Bloom and Co'',
        proj_subscriptionType = ''monthly'', proj_subscriptionEndDate = Some 2000\<rparr>)
   \<and> map_option lastAccessDate
        (lookup exampleRequest
           (snd (verifyLicensePOST urlHostname exampleEnv exampleRequest exampleDb)))
      = Some (Some 1007)
   \<and> map_option lastVerificationDate
        (lookup exampleRequest
           (snd (verifyLicensePOST urlHostname exampleEnv exampleRequest exampleDb)))
      = Some (Some 1007)"
proof -
  have a: "accepted urlHostname exampleEnv (domainText exampleRequest) exampleTenant"
    by (simp add: example_request_domain example_stored_domain example_domain_text
          exampleTenant_def exampleEnv_def)
  show ?thesis
    using verify_post_valid_iff[OF example_env_answered, of urlHostname exampleRequest exampleDb]
      example_present a example_lookup
    by (simp add: exampleTenant_def exampleEnv_def)
qed

text \<open>
  Claim C2 (as amended). For a tenant that passes lookup, account gate, domain binding and
  subscription gate and whose \<open>subscriptionEndDate\<close> is set and strictly before now, the
  first full verification answers 402 with \<open>valid: false\<close> and the error
  \<open>Subscription has expired\<close>, and stores \<open>subscriptionStatus = expired\<close> for the tenant. A
  second verification of the same pair, at any clock, also answers 402 with \<open>valid: false\<close>;
  it stops at the subscription gate, so its error is \<open>Subscription is expired\<close>. Every
  awaited call of both requests is answered.
\<close>

theorem expiry_flips_then_rejects:
  assumes "answered e"
    and "answered e'"
    and "present req"
    and "lookup req db = Some t"
    and "status t = ''active''"
    and "extractDomain h (domainText req) = extractDomain h (websiteDomain t)"
    and "subscriptionStatus t = ''active''"
    and "subscriptionEndDate t = Some end"
    and "end < now e"
  shows "fst (verifyLicensePOST h e req db) = reply 402 (VerifyInvalid ''Subscription has expired'')
     \<and> lookup req (snd (verifyLicensePOST h e req db))
          = Some (t\<lparr>subscriptionStatus := ''expired'', updatedAt := now e\<rparr>)
     \<and> fst (verifyLicensePOST h e' req (snd (verifyLicensePOST h e req db)))
          = reply 402 (VerifyInvalid ''Subscription is expired'')"
proof -
  have first: "verifyLicensePOST h e req db =
      (reply 402 (VerifyInvalid ''Subscription has expired''),
       insertLog e req (client_id t) (req_licenseKey req)
         (extractDomain h (domainText req)) ''expired'' (Some ''Subscription expired'')
         (db\<lparr>saasClients := updateWhere (\<lambda>c. client_id c = client_id t)
                 (\<lambda>c. c\<lparr>subscriptionStatus := ''expired'', updatedAt := now e\<rparr>)
                 (saasClients db)\<rparr>))"
    using assms present_domain[of req h]
    by (simp add: verifyLicensePOST_def Let_def isExpired_def)
  have stored: "lookup req (snd (verifyLicensePOST h e req db))
      = Some (t\<lparr>subscriptionStatus := ''expired'', updatedAt := now e\<rparr>)"
    using assms(4) by (simp add: first selectFirst_updateWhere)
  have second: "fst (verifyLicensePOST h e' req (snd (verifyLicensePOST h e req db)))
      = reply 402 (VerifyInvalid ''Subscription is expired'')"
    using assms(2,3,5,6) stored present_domain[of req h]
    by (simp add: verifyLicensePOST_def[of h e'] first Let_def)
  show ?thesis using first stored second by simp
qed

text \<open>The two error messages of claim C2 differ on the example store, once the clock has
  passed the tenant's end date.\<close>

theorem expiry_same_message_counterexample:
  "json (fst (verifyLicensePOST urlHostname (exampleEnv\<lparr>now := 3000\<rparr>) exampleRequest
            (snd (verifyLicensePOST urlHostname (exampleEnv\<lparr>now := 3000\<rparr>) exampleRequest exampleDb))))
   \<noteq> json (fst (verifyLicensePOST urlHostname (exampleEnv\<lparr>now := 3000\<rparr>) exampleRequest exampleDb))"
proof -
  have h1: "extractDomain urlHostname (domainText exampleRequest) = extractDomain urlHostname (websiteDomain exampleTenant)"
    by (simp add: example_request_domain example_stored_domain example_domain_text exampleTenant_def)
  have "json (fst (verifyLicensePOST urlHostname (exampleEnv\<lparr>now := 3000\<rparr>) exampleRequest exampleDb)) = VerifyInvalid ''Subscription has expired''"
    using example_present example_lookup h1 present_domain[of exampleRequest urlHostname]
    by (simp add: verifyLicensePOST_def Let_def isExpired_def reply_def exampleTenant_def)
  moreover have "json (fst (verifyLicensePOST urlHostname (exampleEnv\<lparr>now := 3000\<rparr>) exampleRequest
            (snd (verifyLicensePOST urlHostname (exampleEnv\<lparr>now := 3000\<rparr>) exampleRequest exampleDb)))) = VerifyInvalid ''Subscription is expired''"
    using example_present example_lookup h1 present_domain[of exampleRequest urlHostname]
    apply (simp add: verifyLicensePOST_def Let_def isExpired_def reply_def selectFirst_updateWhere)
    apply (simp add: exampleTenant_def)
    done
  ultimately show ?thesis by simp
qed

theorem expiry_flips_then_rejects_witness:
  "fst (verifyLicensePOST urlHostname (exampleEnv\<lparr>now := 3000\<rparr>) exampleRequest exampleDb)
     = reply 402 (VerifyInvalid ''Subscription has expired'')
   \<and> map_option subscriptionStatus (lookup exampleRequest
        (snd (verifyLicensePOST urlHostname (exampleEnv\<lparr>now := 3000\<rparr>) exampleRequest exampleDb)))
     = Some ''expired''
   \<and> fst (verifyLicensePOST urlHostname (exampleEnv\<lparr>now := 3001\<rparr>) exampleRequest
        (snd (verifyLicensePOST urlHostname (exampleEnv\<lparr>now := 3000\<rparr>) exampleRequest exampleDb)))
     = reply 402 (VerifyInvalid ''Subscription is expired'')"
proof -
  have d: "extractDomain urlHostname (domainText exampleRequest)
             = extractDomain urlHostname (websiteDomain exampleTenant)"
    by (simp add: example_request_domain example_stored_domain example_domain_text exampleTenant_def)
  have s: "status exampleTenant = ''active''" "subscriptionStatus exampleTenant = ''active''"
    "subscriptionEndDate exampleTenant = Some 2000"
    by (simp_all add: exampleTenant_def)
  have n: "2000 < now (exampleEnv\<lparr>now := 3000\<rparr>)" by simp
  have ok: "answered (exampleEnv\<lparr>now := 3000\<rparr>)" "answered (exampleEnv\<lparr>now := 3001\<rparr>)"
    by simp_all
  show ?thesis
    using expiry_flips_then_rejects[OF ok example_present example_lookup s(1) d s(2) s(3) n]
    by simp
qed

section \<open>The verification log\<close>

lemma verify_post_lacking:
  "answered e \<Longrightarrow> lacking req \<Longrightarrow> verifyLicensePOST h e req db
     = (reply 400 (VerifyInvalid ''License key and domain are required''), db)"
  by (auto simp: verifyLicensePOST_def)

lemma verify_post_log:
  assumes "answered e" "present req"
  shows "\<exists>entry. licenseVerificationLogs (snd (verifyLicensePOST h e req db))
                    = licenseVerificationLogs db @ [entry]
     \<and> log_clientId entry = (case lookup req db of None \<Rightarrow> ''unknown'' | Some t \<Rightarrow> client_id t)
     \<and> log_licenseKey entry = req_licenseKey req
     \<and> log_requestDomain entry = extractDomain h (domainText req)
     \<and> log_requestIp entry = getClientIP req
     \<and> log_userAgent entry = orElse (userAgentHeader req) ''unknown''
     \<and> log_verificationStatus entry \<in> set [''valid'', ''invalid'', ''expired'', ''suspended'']
     \<and> log_responseTime entry = now e - startTime e
     \<and> (log_errorMessage entry = None)
          = (\<exists>proj. json (fst (verifyLicensePOST h e req db)) = VerifyValid proj)"
  using assms present_domain[of req h]
  by (auto simp: verifyLicensePOST_def Let_def insertLog_def reply_def split: option.splits)

text \<open>The two ways into the \<open>catch\<close> branch that depend on the body alone: a \<open>null\<close> body,
  and a truthy license key with a truthy domain that is not a string. The answer is 500
  and the store is as before.\<close>

lemma verify_post_throws:
  assumes "bodyIsNull req
      \<or> (jsTruthy (req_licenseKey req) \<and> jsTruthy (req_domain req)
          \<and> (\<forall>d. req_domain req \<noteq> JString d))"
  shows "verifyLicensePOST h e req db = (verifyFailed, db)"
  using assms
  by (auto simp: verifyLicensePOST_def attempt_def extractDomainOf_def split: js_value.splits)

text \<open>
  Claim C6 (as amended). A request to the full verification whose body carries a license
  key and a domain that is a string, neither of them empty, appends exactly one entry to
  the verification log, whatever the outcome: it records the tenant id (or \<open>unknown\<close> when
  no tenant has the key), the license key as submitted, the canonical requesting domain,
  the IP, the user agent, one of the four verification statuses, the elapsed time, and an
  error message unless the outcome is valid. A request whose body is not \<open>null\<close> and in
  which the license key or the domain is absent, \<open>null\<close> or empty is answered 400 and leaves
  the store as it was: no entry is written. Every awaited call of the request is answered.
\<close>

theorem verify_post_logs_once:
  assumes ok: "answered e"
  shows
  "(present req \<longrightarrow>
      (\<exists>entry. licenseVerificationLogs (snd (verifyLicensePOST h e req db))
                    = licenseVerificationLogs db @ [entry]
     \<and> log_clientId entry = (case lookup req db of None \<Rightarrow> ''unknown'' | Some t \<Rightarrow> client_id t)
     \<and> log_licenseKey entry = req_licenseKey req
     \<and> log_requestDomain entry = extractDomain h (domainText req)
     \<and> log_requestIp entry = getClientIP req
     \<and> log_userAgent entry = orElse (userAgentHeader req) ''unknown''
     \<and> log_verificationStatus entry \<in> set [''valid'', ''invalid'', ''expired'', ''suspended'']
     \<and> log_responseTime entry = now e - startTime e
     \<and> (log_errorMessage entry = None)
          = (\<exists>proj. json (fst (verifyLicensePOST h e req db)) = VerifyValid proj)))
   \<and> (lacking req \<longrightarrow>
        verifyLicensePOST h e req db
          = (reply 400 (VerifyInvalid ''License key and domain are required''), db))"
  using verify_post_log[OF ok, of req h db] verify_post_lacking[OF ok, of req h db]
  by blast

text \<open>A request without a domain writes no log entry (claim C6 as stated fails there).\<close>

theorem verify_post_logs_once_counterexample:
  "licenseVerificationLogs
     (snd (verifyLicensePOST urlHostname exampleEnv (exampleRequest\<lparr>req_domain := JUndefined\<rparr>)
        exampleDb))
   = []"
  by (simp add: verifyLicensePOST_def jsTruthy_def exampleRequest_def exampleDb_def)

theorem verify_post_logs_once_witness:
  "length (licenseVerificationLogs
       (snd (verifyLicensePOST urlHostname exampleEnv exampleRequest exampleDb))) = 1
   \<and> verifyLicensePOST urlHostname exampleEnv (exampleRequest\<lparr>req_licenseKey := JString []\<rparr>)
        exampleDb
     = (reply 400 (VerifyInvalid ''License key and domain are required''), exampleDb)"
proof -
  have lack: "lacking (exampleRequest\<lparr>req_licenseKey := JString []\<rparr>)"
    by (simp add: exampleRequest_def)
  have empty: "licenseVerificationLogs exampleDb = []"
    by (simp add: exampleDb_def)
  have one: "length (licenseVerificationLogs
       (snd (verifyLicensePOST urlHostname exampleEnv exampleRequest exampleDb))) = 1"
    using verify_post_logs_once[OF example_env_answered, of exampleRequest urlHostname exampleDb]
      example_present empty
    by auto
  show ?thesis
    using verify_post_logs_once[OF example_env_answered,
        of "exampleRequest\<lparr>req_licenseKey := JString []\<rparr>" urlHostname exampleDb] lack one
    by simp
qed

section \<open>Lightweight check\<close>

lemma verify_get_readonly: "snd (verifyLicenseGET h e q db) = db"
  by (simp add: verifyLicenseGET_def attempt_def Let_def split: option.splits)

lemma get_unfold:
  "answered e \<Longrightarrow> getCode h e q db =
     (if \<not> queried q then 400
      else case found q db of
             None \<Rightarrow> 401
           | Some t \<Rightarrow>
               if accountIssue t then 403
               else if subscriptionInactive t then 402
               else if domainIssue h q t then 403
               else if isExpired e (subscriptionEndDate t) then 402
               else 200)"
  by (simp add: verifyLicenseGET_def Let_def reply_def split: option.splits)

lemma post_unfold:
  "answered e \<Longrightarrow> postCode h e q req db =
     (if \<not> queried q then 400
      else case found q db of
             None \<Rightarrow> 401
           | Some t \<Rightarrow>
               if accountIssue t then 403
               else if domainIssue h q t then 403
               else if subscriptionInactive t then 402
               else if isExpired e (subscriptionEndDate t) then 402
               else 200)"
  by (cases "q_license q"; cases "q_domain q")
     (simp_all add: verifyLicensePOST_def extractDomainOf_def jsTruthy_def truthy_def Let_def
        reply_def split: option.splits)

lemma example_other_domain:
  "extractDomain urlHostname ''other.example.org'' = ''other.example.org''"
  by (simp add: url_eval)


lemma example_found: "found exampleQuery exampleDb = Some exampleTenant"
  by (simp add: exampleQuery_def exampleDb_def exampleTenant_def selectFirst_def)

lemma get_table:
  assumes ok: "answered e"
  shows "(getCode h e q db = 400 \<longleftrightarrow> \<not> queried q)
   \<and> (getCode h e q db = 401 \<longleftrightarrow> queried q \<and> found q db = None)
   \<and> (getCode h e q db = 403 \<longleftrightarrow>
        queried q
        \<and> (\<exists>t. found q db = Some t
              \<and> (accountIssue t \<or> (\<not> subscriptionInactive t \<and> domainIssue h q t))))
   \<and> (getCode h e q db = 402 \<longleftrightarrow>
        queried q
        \<and> (\<exists>t. found q db = Some t \<and> \<not> accountIssue t
              \<and> (subscriptionInactive t
                  \<or> (\<not> domainIssue h q t \<and> isExpired e (subscriptionEndDate t)))))
   \<and> (getCode h e q db = 200 \<longleftrightarrow>
        queried q \<and> (\<exists>t. found q db = Some t \<and> accepted h e (the (q_domain q)) t))"
  unfolding get_unfold[OF ok]
  by (cases "found q db") (auto simp: isExpired_def split: option.splits)

lemma get_post_compare:
  assumes ok: "answered e"
  shows "(if gateClash h q db
       then getCode h e q db = 402 \<and> postCode h e q req db = 403
       else getCode h e q db = postCode h e q req db)"
  unfolding get_unfold[OF ok] post_unfold[OF ok]
  by (cases "found q db") auto

text \<open>
  Claim C3 (as amended). For every pair of query parameters and every store, the
  lightweight check changes nothing in the store (no log entry, no update), and when the
  awaited calls of both requests are answered its status code is: 400 exactly when a
  parameter is missing; 401 exactly when no tenant has the key; 403 exactly when the
  tenant's \<open>status\<close> is not \<open>active\<close>, or its \<open>subscriptionStatus\<close> is \<open>active\<close> and the domain
  does not match; 402 exactly when the tenant is active and its \<open>subscriptionStatus\<close> is
  not \<open>active\<close>, or the domain matches and the end date has passed; 200 exactly when the
  tenant is accepted. It is the status code of the full verification for the same two
  fields, except when the tenant is found and active, its \<open>subscriptionStatus\<close> is not
  \<open>active\<close> and the domain does not match: the lightweight check tests the subscription
  before the domain and answers 402, the full verification tests the domain first and
  answers 403.
\<close>

theorem verify_get_status_codes:
  assumes ok: "answered e"
  shows
  "snd (verifyLicenseGET h e q db) = db
   \<and> (getCode h e q db = 400 \<longleftrightarrow> \<not> queried q)
   \<and> (getCode h e q db = 401 \<longleftrightarrow> queried q \<and> found q db = None)
   \<and> (getCode h e q db = 403 \<longleftrightarrow>
        queried q
        \<and> (\<exists>t. found q db = Some t
              \<and> (accountIssue t \<or> (\<not> subscriptionInactive t \<and> domainIssue h q t))))
   \<and> (getCode h e q db = 402 \<longleftrightarrow>
        queried q
        \<and> (\<exists>t. found q db = Some t \<and> \<not> accountIssue t
              \<and> (subscriptionInactive t
                  \<or> (\<not> domainIssue h q t \<and> isExpired e (subscriptionEndDate t)))))
   \<and> (getCode h e q db = 200 \<longleftrightarrow>
        queried q \<and> (\<exists>t. found q db = Some t \<and> accepted h e (the (q_domain q)) t))
   \<and> (if gateClash h q db
       then getCode h e q db = 402 \<and> postCode h e q req db = 403
       else getCode h e q db = postCode h e q req db)"
  using verify_get_readonly[of h e q db] get_table[OF ok, where h=h and q=q and db=db]
    get_post_compare[OF ok, where h=h and q=q and db=db and req=req]
  by (intro conjI) (simp_all only:)


text \<open>Status codes 402 and 403 for the same fields and store (claim C3 as stated fails
  there).\<close>

theorem verify_get_status_codes_counterexample:
  "getCode urlHostname exampleEnv (exampleQuery\<lparr>q_domain := Some ''other.example.org''\<rparr>)
       (exampleDb\<lparr>saasClients := [exampleTenant\<lparr>subscriptionStatus := ''expired''\<rparr>]\<rparr>)
   \<noteq> postCode urlHostname exampleEnv (exampleQuery\<lparr>q_domain := Some ''other.example.org''\<rparr>)
       exampleRequest
       (exampleDb\<lparr>saasClients := [exampleTenant\<lparr>subscriptionStatus := ''expired''\<rparr>]\<rparr>)"
  by (simp add: verifyLicenseGET_def verifyLicensePOST_def extractDomainOf_def Let_def
        reply_def truthy_def exampleQuery_def selectFirst_def exampleTenant_def
        example_other_domain example_stored_domain)

theorem verify_get_status_codes_witness:
  "getCode urlHostname exampleEnv exampleQuery exampleDb = 200
   \<and> postCode urlHostname exampleEnv exampleQuery exampleRequest exampleDb = 200
   \<and> getCode urlHostname exampleEnv (exampleQuery\<lparr>q_domain := Some ''other.example.org''\<rparr>)
       (exampleDb\<lparr>saasClients := [exampleTenant\<lparr>subscriptionStatus := ''expired''\<rparr>]\<rparr>) = 402
   \<and> postCode urlHostname exampleEnv (exampleQuery\<lparr>q_domain := Some ''other.example.org''\<rparr>)
       exampleRequest
       (exampleDb\<lparr>saasClients := [exampleTenant\<lparr>subscriptionStatus := ''expired''\<rparr>]\<rparr>) = 403"
proof -
  let ?q = "exampleQuery\<lparr>q_domain := Some ''other.example.org''\<rparr>"
  let ?db = "exampleDb\<lparr>saasClients := [exampleTenant\<lparr>subscriptionStatus := ''expired''\<rparr>]\<rparr>"
  have asked: "queried exampleQuery"
    by (simp add: exampleQuery_def truthy_def)
  have fine: "accepted urlHostname exampleEnv (the (q_domain exampleQuery)) exampleTenant"
    by (simp add: exampleQuery_def exampleTenant_def exampleEnv_def example_request_domain
          example_stored_domain)
  have noclash: "\<not> gateClash urlHostname exampleQuery exampleDb"
    using example_found by (simp add: exampleTenant_def)
  have clash: "gateClash urlHostname ?q ?db"
    by (simp add: truthy_def exampleQuery_def selectFirst_def exampleTenant_def
          example_other_domain example_stored_domain)
  have a: "getCode urlHostname exampleEnv exampleQuery exampleDb = 200
      \<and> postCode urlHostname exampleEnv exampleQuery exampleRequest exampleDb = 200"
    using verify_get_status_codes[OF example_env_answered,
        where h=urlHostname and q=exampleQuery and db=exampleDb and req=exampleRequest]
      asked fine noclash example_found
    by metis
  have b: "getCode urlHostname exampleEnv ?q ?db = 402
      \<and> postCode urlHostname exampleEnv ?q exampleRequest ?db = 403"
    using verify_get_status_codes[OF example_env_answered,
        where h=urlHostname and q="?q" and db="?db" and req=exampleRequest] clash
    by presburger
  show ?thesis
    using a b by simp
qed

section \<open>Key generator\<close>

lemma hexDigit_cases: "hexDigit n \<in> set ''0123456789abcdef''"
  unfolding hexDigit_def by (rule nth_mem) simp

lemma upper_hexDigit: "isUpperHexDigit (upperChar (hexDigit n))"
  using hexDigit_cases[of n]
  by (auto simp: isUpperHexDigit_def upperChar_def)

lemma twelve_bytes:
  assumes "length (bs :: 8 word list) = 12"
  obtains b1 b2 b3 b4 b5 b6 b7 b8 b9 b10 b11 b12
  where "bs = [b1, b2, b3, b4, b5, b6, b7, b8, b9, b10, b11, b12]"
proof -
  from assms obtain b1 r1 where "bs = b1 # r1" "length r1 = 11" by (cases bs) auto
  moreover then obtain b2 r2 where "r1 = b2 # r2" "length r2 = 10" by (cases r1) auto
  moreover then obtain b3 r3 where "r2 = b3 # r3" "length r3 = 9" by (cases r2) auto
  moreover then obtain b4 r4 where "r3 = b4 # r4" "length r4 = 8" by (cases r3) auto
  moreover then obtain b5 r5 where "r4 = b5 # r5" "length r5 = 7" by (cases r4) auto
  moreover then obtain b6 r6 where "r5 = b6 # r6" "length r6 = 6" by (cases r5) auto
  moreover then obtain b7 r7 where "r6 = b7 # r7" "length r7 = 5" by (cases r6) auto
  moreover then obtain b8 r8 where "r7 = b8 # r8" "length r8 = 4" by (cases r7) auto
  moreover then obtain b9 r9 where "r8 = b9 # r9" "length r9 = 3" by (cases r8) auto
  moreover then obtain b10 r10 where "r9 = b10 # r10" "length r10 = 2" by (cases r9) auto
  moreover then obtain b11 r11 where "r10 = b11 # r11" "length r11 = 1" by (cases r10) auto
  moreover then obtain b12 where "r11 = [b12]" by (cases r11) auto
  ultimately show ?thesis using that by simp
qed

lemma six: "(6::nat) = Suc (Suc (Suc (Suc (Suc (Suc 0)))))"
  by simp

lemma example_key:
  "generateLicenseKey [0, 161, 0, 178, 0, 195, 0, 212, 0, 229, 0, 246]
     = ''LIC-00A1-00B2-00C3-00D4-00E5-00F6''"
  by code_simp

text \<open>
  Claim C4 (as amended). For every twelve bytes drawn from the random source,
  \<open>generateLicenseKey\<close> returns \<open>LIC-\<close> followed by their uppercase hexadecimal encoding
  (24 characters) split into groups of four joined by \<open>-\<close>. These are six groups, so the key
  has the format \<open>LIC-XXXX-XXXX-XXXX-XXXX-XXXX-XXXX\<close>, is 33 characters long, and matches
  \<open>^LIC(-[0-9A-F]{4}){6}$\<close>.
\<close>

theorem generateLicenseKey_format:
  assumes "length randomBytes = 12"
  shows "generateLicenseKey randomBytes
           = ''LIC-'' @ joinWith ''-'' (matchGroups (toUpperCase (toHex randomBytes)))
       \<and> length (toHex randomBytes) = 24
       \<and> length (matchGroups (toUpperCase (toHex randomBytes))) = 6
       \<and> length (generateLicenseKey randomBytes) = 33
       \<and> matchesLicensePattern 6 (generateLicenseKey randomBytes)"
proof -
  obtain b1 b2 b3 b4 b5 b6 b7 b8 b9 b10 b11 b12
    where bs: "randomBytes = [b1, b2, b3, b4, b5, b6, b7, b8, b9, b10, b11, b12]"
    using twelve_bytes[OF assms] .
  have key: "generateLicenseKey randomBytes
           = ''LIC-'' @ joinWith ''-'' (matchGroups (toUpperCase (toHex randomBytes)))"
    unfolding bs
    by (simp add: generateLicenseKey_def toHex_def hexByte_def toUpperCase_def Let_def)
  have hex: "length (toHex randomBytes) = 24"
    unfolding bs by (simp add: toHex_def hexByte_def)
  have groups: "length (matchGroups (toUpperCase (toHex randomBytes))) = 6"
    unfolding bs by (simp add: toHex_def hexByte_def toUpperCase_def)
  have len: "length (generateLicenseKey randomBytes) = 33"
    unfolding key unfolding bs
    by (simp add: toHex_def hexByte_def toUpperCase_def)
  have pat: "matchesLicensePattern 6 (generateLicenseKey randomBytes)"
    unfolding key six unfolding bs
    by (simp add: toHex_def hexByte_def toUpperCase_def matchesLicensePattern_def upper_hexDigit)
  show ?thesis
    using key hex groups len pat by simp
qed

text \<open>A key of 33 characters, not 29 (claim C4 as stated fails there).\<close>

theorem generateLicenseKey_format_counterexample:
  "length (generateLicenseKey [0, 161, 0, 178, 0, 195, 0, 212, 0, 229, 0, 246]) \<noteq> 29"
  by (simp add: generateLicenseKey_def toHex_def hexByte_def toUpperCase_def Let_def)


theorem generateLicenseKey_format_witness:
  "generateLicenseKey [0, 161, 0, 178, 0, 195, 0, 212, 0, 229, 0, 246]
     = ''LIC-00A1-00B2-00C3-00D4-00E5-00F6''
   \<and> length (generateLicenseKey [0, 161, 0, 178, 0, 195, 0, 212, 0, 229, 0, 246]) = 33
   \<and> matchesLicensePattern 6 (generateLicenseKey [0, 161, 0, 178, 0, 195, 0, 212, 0, 229, 0, 246])"
proof -
  have twelve: "length [0, 161, 0, 178, 0, 195, 0, 212, 0, 229, 0, 246 :: 8 word] = 12"
    by simp
  show ?thesis
    using generateLicenseKey_format[OF twelve] example_key by blast
qed

section \<open>Domain normalizer\<close>

text \<open>
  Claim C5, at its own example: \<open>extractDomain("HTTPS://Foo.COM/")\<close> is to be \<open>foo.com\<close>,
  like \<open>extractDomain("foo.com")\<close>. The code tests the prefix \<open>http\<close> with
  \<open>startsWith\<close>, which distinguishes case, so \<open>HTTPS://Foo.COM/\<close> is taken to have no
  scheme: whatever the URL parser does, what it is given is \<open>https://HTTPS://Foo.COM/\<close>,
  and the result is the lowercase hostname of that string (or \<open>https://foo.com/\<close> when it
  does not parse). The host of that string is \<open>https\<close>, so the result is \<open>https\<close>, while
  \<open>foo.com\<close> normalizes to \<open>foo.com\<close>.
\<close>

theorem extractDomain_uppercase_scheme:
  "extractDomain hostnameOf ''HTTPS://Foo.COM/''
     = (case hostnameOf ''https://HTTPS://Foo.COM/'' of
          Some hostname \<Rightarrow> toLowerCase hostname
        | None \<Rightarrow> ''https://foo.com/'')
   \<and> extractDomain urlHostname ''HTTPS://Foo.COM/'' = ''https''
   \<and> extractDomain urlHostname ''foo.com'' = ''foo.com''"
proof -
  have parsed: "extractDomain hostnameOf ''HTTPS://Foo.COM/''
     = (case hostnameOf ''https://HTTPS://Foo.COM/'' of
          Some hostname \<Rightarrow> toLowerCase hostname
        | None \<Rightarrow> ''https://foo.com/'')"
    by (simp add: extractDomain_def startsWith_def toLowerCase_def lowerChar_def
          split: option.splits)
  have upper: "extractDomain urlHostname ''HTTPS://Foo.COM/'' = ''https''"
    by (simp add: url_eval)
  have bare: "extractDomain urlHostname ''foo.com'' = ''foo.com''"
    by (simp add: url_eval)
  show ?thesis
    using parsed upper bare by (intro conjI)
qed

section \<open>Tenant user fetcher\<close>

lemma fetch_not_active:
  "apiStatus tenant \<noteq> Some ''active'' \<Longrightarrow>
     fetchTenantUsers pf e tenant options sent = (Inl (Error (pausedMessage tenant)), sent)"
  by (simp add: fetchTenantUsers_def)

lemma fetch_no_base:
  "apiStatus tenant = Some ''active'' \<Longrightarrow> \<not> truthy (apiBaseUrl tenant) \<Longrightarrow>
     fetchTenantUsers pf e tenant options sent = (Inl (Error noBaseUrlMessage), sent)"
  by (simp add: fetchTenantUsers_def)

lemma fetch_no_auth:
  "apiStatus tenant = Some ''active'' \<Longrightarrow> truthy (apiBaseUrl tenant) \<Longrightarrow>
     authType tenant \<noteq> ''HMAC'' \<or> \<not> truthy (apiKey tenant) \<Longrightarrow>
     fetchTenantUsers pf e tenant options sent = (Inl (Error authMessage), sent)"
  by (simp add: fetchTenantUsers_def)

lemma fetch_eligible:
  assumes "apiEligible tenant"
  shows "fetchTenantUsers pf e tenant options sent = (Inl InvalidUrl, sent)
       \<or> (\<exists>r request. fetchTenantUsers pf e tenant options sent = (r, sent @ [request]))"
  using assms
  by (auto simp: fetchTenantUsers_def Let_def split: option.splits prod.splits)

text \<open>
  Claim C7. For every tenant record, \<open>fetchTenantUsers\<close> throws an \<open>Error\<close> without having
  sent any request if and only if the tenant violates the API-eligibility invariant
  (\<open>apiStatus\<close> is \<open>active\<close>, \<open>apiBaseUrl\<close> set, \<open>authType\<close> is \<open>HMAC\<close>, \<open>apiKey\<close> set).
  The message names the API status (\<open>inactive\<close> when it is null) when that is not
  \<open>active\<close>, else says that the base URL is not configured, else that only HMAC with an API
  key is supported; the three messages are pairwise different. For \<open>apiStatus = paused\<close>
  the message is \<open>Tenant API is paused\<close> and no request is sent. The list of sent
  requests is the same before and after in each of these cases.
\<close>

theorem fetchTenantUsers_fails_fast:
  "((\<exists>m. fetchTenantUsers pf e tenant options sent = (Inl (Error m), sent))
      \<longleftrightarrow> \<not> apiEligible tenant)
   \<and> (apiStatus tenant \<noteq> Some ''active'' \<longrightarrow>
        fetchTenantUsers pf e tenant options sent = (Inl (Error (pausedMessage tenant)), sent))
   \<and> (apiStatus tenant = Some ''active'' \<and> \<not> truthy (apiBaseUrl tenant) \<longrightarrow>
        fetchTenantUsers pf e tenant options sent = (Inl (Error noBaseUrlMessage), sent))
   \<and> (apiStatus tenant = Some ''active'' \<and> truthy (apiBaseUrl tenant)
        \<and> (authType tenant \<noteq> ''HMAC'' \<or> \<not> truthy (apiKey tenant)) \<longrightarrow>
        fetchTenantUsers pf e tenant options sent = (Inl (Error authMessage), sent))
   \<and> pausedMessage tenant \<noteq> noBaseUrlMessage \<and> pausedMessage tenant \<noteq> authMessage
   \<and> noBaseUrlMessage \<noteq> authMessage
   \<and> (apiStatus tenant = Some ''paused'' \<longrightarrow>
        fetchTenantUsers pf e tenant options sent = (Inl (Error ''Tenant API is paused''), sent))"
proof -
  let ?run = "fetchTenantUsers pf e tenant options sent"
  have iff: "(\<exists>m. ?run = (Inl (Error m), sent)) \<longleftrightarrow> \<not> apiEligible tenant"
  proof
    assume "\<exists>m. ?run = (Inl (Error m), sent)"
    then show "\<not> apiEligible tenant"
      using fetch_eligible[of tenant pf e options sent] by auto
  next
    assume "\<not> apiEligible tenant"
    then consider "apiStatus tenant \<noteq> Some ''active''"
      | "apiStatus tenant = Some ''active''" "\<not> truthy (apiBaseUrl tenant)"
      | "apiStatus tenant = Some ''active''" "truthy (apiBaseUrl tenant)"
        "authType tenant \<noteq> ''HMAC'' \<or> \<not> truthy (apiKey tenant)"
      by blast
    then show "\<exists>m. ?run = (Inl (Error m), sent)"
    proof cases
      case 1
      then show ?thesis using fetch_not_active by blast
    next
      case 2
      then show ?thesis using fetch_no_base by blast
    next
      case 3
      then show ?thesis using fetch_no_auth by blast
    qed
  qed
  have c2: "apiStatus tenant \<noteq> Some ''active'' \<longrightarrow>
        ?run = (Inl (Error (pausedMessage tenant)), sent)"
    using fetch_not_active by blast
  have c3: "apiStatus tenant = Some ''active'' \<and> \<not> truthy (apiBaseUrl tenant) \<longrightarrow>
        ?run = (Inl (Error noBaseUrlMessage), sent)"
    using fetch_no_base by blast
  have c4: "apiStatus tenant = Some ''active'' \<and> truthy (apiBaseUrl tenant)
        \<and> (authType tenant \<noteq> ''HMAC'' \<or> \<not> truthy (apiKey tenant)) \<longrightarrow>
        ?run = (Inl (Error authMessage), sent)"
    using fetch_no_auth by blast
  have c5: "pausedMessage tenant \<noteq> noBaseUrlMessage" "pausedMessage tenant \<noteq> authMessage"
    "noBaseUrlMessage \<noteq> authMessage"
    by simp_all
  have c6: "apiStatus tenant = Some ''paused'' \<longrightarrow>
        ?run = (Inl (Error ''Tenant API is paused''), sent)"
    by (simp add: fetchTenantUsers_def orElse_def)
  from iff c2 c3 c4 c5 c6 show ?thesis
    by (intro conjI)
qed

theorem fetchTenantUsers_fails_fast_witness:
  "fetchTenantUsers examplePlatform exampleEnv (exampleApiTenant\<lparr>apiStatus := Some ''paused''\<rparr>)
       noOptions [] = (Inl (Error ''Tenant API is paused''), [])
   \<and> fetchTenantUsers examplePlatform exampleEnv (exampleApiTenant\<lparr>apiStatus := None\<rparr>)
       noOptions [] = (Inl (Error ''Tenant API is inactive''), [])
   \<and> fetchTenantUsers examplePlatform exampleEnv (exampleApiTenant\<lparr>apiBaseUrl := None\<rparr>)
       noOptions [] = (Inl (Error ''Tenant API base URL is not configured''), [])
   \<and> fetchTenantUsers examplePlatform exampleEnv (exampleApiTenant\<lparr>apiKey := Some []\<rparr>)
       noOptions []
     = (Inl (Error ''Only HMAC authentication is currently supported and API key is required''), [])
   \<and> (\<nexists>m. fetchTenantUsers examplePlatform exampleEnv exampleApiTenant noOptions []
            = (Inl (Error m), []))"
proof -
  have paused: "fetchTenantUsers examplePlatform exampleEnv
      (exampleApiTenant\<lparr>apiStatus := Some ''paused''\<rparr>) noOptions []
      = (Inl (Error ''Tenant API is paused''), [])"
    using fetchTenantUsers_fails_fast[of examplePlatform exampleEnv
        "exampleApiTenant\<lparr>apiStatus := Some ''paused''\<rparr>" noOptions "[]"]
    by (simp add: orElse_def)
  have inactive: "fetchTenantUsers examplePlatform exampleEnv
      (exampleApiTenant\<lparr>apiStatus := None\<rparr>) noOptions []
      = (Inl (Error ''Tenant API is inactive''), [])"
    using fetchTenantUsers_fails_fast[of examplePlatform exampleEnv
        "exampleApiTenant\<lparr>apiStatus := None\<rparr>" noOptions "[]"]
    by (simp add: orElse_def)
  have nobase: "fetchTenantUsers examplePlatform exampleEnv
      (exampleApiTenant\<lparr>apiBaseUrl := None\<rparr>) noOptions []
      = (Inl (Error ''Tenant API base URL is not configured''), [])"
    using fetchTenantUsers_fails_fast[of examplePlatform exampleEnv
        "exampleApiTenant\<lparr>apiBaseUrl := None\<rparr>" noOptions "[]"]
    by (simp add: exampleApiTenant_def truthy_def)
  have nokey: "fetchTenantUsers examplePlatform exampleEnv
      (exampleApiTenant\<lparr>apiKey := Some []\<rparr>) noOptions []
      = (Inl (Error ''Only HMAC authentication is currently supported and API key is required''), [])"
    using fetchTenantUsers_fails_fast[of examplePlatform exampleEnv
        "exampleApiTenant\<lparr>apiKey := Some []\<rparr>" noOptions "[]"]
    by (simp add: exampleApiTenant_def truthy_def)
  have eligible: "\<nexists>m. fetchTenantUsers examplePlatform exampleEnv exampleApiTenant noOptions []
            = (Inl (Error m), [])"
    using fetchTenantUsers_fails_fast[of examplePlatform exampleEnv exampleApiTenant noOptions "[]"]
    by (simp add: exampleApiTenant_def truthy_def)
  show ?thesis
    using paused inactive nobase nokey eligible by simp
qed

section \<open>HMAC client signer\<close>

lemma hexDigit_lower: "isLowerHexDigit (hexDigit n)"
  using hexDigit_cases[of n] by (simp add: isLowerHexDigit_def)

lemma toHex_lower: "list_all isLowerHexDigit (toHex bs)"
  by (induction bs) (simp_all add: toHex_def hexByte_def hexDigit_lower)

lemma toHex_length: "length (toHex bs) = 2 * length bs"
  by (induction bs) (simp_all add: toHex_def hexByte_def)

text \<open>
  Claim C8. For every secret, timestamp, path, query string and body,
  \<open>createHmacSignature\<close> is the lowercase hexadecimal encoding of the HMAC-SHA256 digest of
  \<open>timestamp:path:query:body\<close> under the secret, with the empty string for an omitted body:
  two lowercase hexadecimal digits for each byte of the digest. Equal inputs give equal
  signatures. The digest function is the platform's and is arbitrary here.
\<close>

theorem createHmacSignature_hex:
  "createHmacSignature hmac secret timestamp path search (Some body)
     = toHex (hmac secret (toSign timestamp path search body))
   \<and> createHmacSignature hmac secret timestamp path search None
     = toHex (hmac secret (toSign timestamp path search []))
   \<and> list_all isLowerHexDigit (createHmacSignature hmac secret timestamp path search b)
   \<and> length (createHmacSignature hmac secret timestamp path search (Some body))
     = 2 * length (hmac secret (toSign timestamp path search body))
   \<and> (secret' = secret \<and> timestamp' = timestamp \<and> path' = path \<and> search' = search \<and> b' = b
        \<longrightarrow> createHmacSignature hmac secret' timestamp' path' search' b'
            = createHmacSignature hmac secret timestamp path search b)"
  by (simp add: createHmacSignature_def toHex_lower toHex_length)

theorem createHmacSignature_hex_witness:
  "createHmacSignature (hmacSha256 examplePlatform) ''00ff'' ''1007'' ''/api/admin/users''
      ''?limit=1'' None = ''0fa0''
   \<and> createHmacSignature (hmacSha256 examplePlatform) ''00ff'' ''1007'' ''/api/admin/users''
      ''?limit=1'' (Some []) = ''0fa0''"
proof -
  have digest: "hmacSha256 examplePlatform = (\<lambda>key message. [0x0F, 0xA0])"
    by (simp add: examplePlatform_def)
  have hex: "toHex [0x0F, 0xA0] = ''0fa0''"
    by code_simp
  show ?thesis
    using createHmacSignature_hex[of "hmacSha256 examplePlatform" "''00ff''" "''1007''"
        "''/api/admin/users''" "''?limit=1''" "[]" None "''00ff''" "''1007''"
        "''/api/admin/users''" "''?limit=1''" None] digest hex
    by simp
qed

section \<open>License lookup by domain\<close>

text \<open>
  Claim C10. A request to \<open>POST /check-by-domain\<close> carries a domain and nothing else: no
  key, no credential. When its canonical form is the \<open>websiteDomain\<close> of a stored tenant
  (the row the lookup returns: the first one, should several share the domain) and that
  tenant has \<open>status\<close> and \<open>subscriptionStatus\<close> \<open>active\<close> and no end date before now, the
  answer is 200 with \<open>valid: true\<close> and the tenant's whole license key in the body, under
  the header \<open>Access-Control-Allow-Origin: *\<close>; the store is not changed. Every awaited
  call of the request is answered.
\<close>

theorem checkByDomain_discloses_key:
  assumes "answered e"
    and "truthy domain"
    and "selectFirst (\<lambda>c. websiteDomain c = extractDomain h (the domain)) (saasClients db) = Some t"
    and "status t = ''active''"
    and "subscriptionStatus t = ''active''"
    and "case subscriptionEndDate t of None \<Rightarrow> True | Some end \<Rightarrow> \<not> end < now e"
  shows "checkByDomainPOST h e domain db
           = (reply 200 (DomainValid (licenseVerified t = ''yes'') (licenseKey t)
                \<lparr>dc_id = client_id t, dc_companyName = companyName t,
                 dc_subscriptionStatus = subscriptionStatus t,
                 dc_subscriptionEndDate = subscriptionEndDate t\<rparr>), db)
       \<and> map_of (headers (fst (checkByDomainPOST h e domain db))) ''Access-Control-Allow-Origin''
           = Some ''*''"
  using assms
  by (auto simp: checkByDomainPOST_def Let_def isExpired_def reply_def corsHeaders_def
           split: option.splits)

theorem checkByDomain_discloses_key_witness:
  "checkByDomainPOST urlHostname exampleEnv (Some ''https://Shop.Example.com/'') exampleDb
     = (reply 200 (DomainValid True ''LIC-00A1-00B2-00C3-00D4-00E5-00F6''
          \<lparr>dc_id = ''c-1'', dc_companyName = ''Bloom and Co'',
           dc_subscriptionStatus = ''active'', dc_subscriptionEndDate = Some 2000\<rparr>), exampleDb)
   \<and> map_of (headers (fst (checkByDomainPOST urlHostname exampleEnv
        (Some ''https://Shop.Example.com/'') exampleDb))) ''Access-Control-Allow-Origin''
     = Some ''*''"
proof -
  have t: "truthy (Some ''https://Shop.Example.com/'')"
    by (simp add: truthy_def)
  have f: "selectFirst (\<lambda>c. websiteDomain c
        = extractDomain urlHostname (the (Some ''https://Shop.Example.com/'')))
      (saasClients exampleDb) = Some exampleTenant"
    by (simp add: example_request_domain selectFirst_def exampleDb_def exampleTenant_def)
  have s: "status exampleTenant = ''active''" "subscriptionStatus exampleTenant = ''active''"
    by (simp_all add: exampleTenant_def)
  have x: "case subscriptionEndDate exampleTenant of None \<Rightarrow> True
           | Some end \<Rightarrow> \<not> end < now exampleEnv"
    by (simp add: exampleTenant_def exampleEnv_def)
  show ?thesis
    using checkByDomain_discloses_key[OF example_env_answered t f s x]
    by (simp add: exampleTenant_def reply_def corsHeaders_def)
qed

end
